theory Spec2Isabelle
  imports Complex_Main "HOL-Library.Log_Nat"
begin

section \<open>Python exceptions as values\<close>

text \<open>
  Every \<^verbatim>\<open>raise\<close>, failed assertion and library failure of the Python source is a value of
  this type; a function that can raise returns \<open>error + 'a\<close> with \<open>Inl\<close> the exception.
\<close>

datatype error =
    ValueError string
  | KeyError string
  | RuntimeError string
  | AssertionError string
  | TypeError string
  | IndexError
  | StopIteration

section \<open>samplers/vi/vi_pyro_flows.py: the two registries\<close>

text \<open>
  Names are Python strings; they are modelled as \<open>string\<close> restricted to ASCII, where
  \<^verbatim>\<open>str.lower\<close> maps \<^verbatim>\<open>A..Z\<close> to \<^verbatim>\<open>a..z\<close> and leaves every other character alone.
\<close>

definition isupper_char :: "char \<Rightarrow> bool" where
  "isupper_char c = (65 \<le> (of_char c :: nat) \<and> (of_char c :: nat) \<le> 90)"

definition lower_char :: "char \<Rightarrow> char" where
  "lower_char c = (if isupper_char c then char_of ((of_char c :: nat) + 32) else c)"

definition lower :: "string \<Rightarrow> string" where
  "lower s = map lower_char s"

text \<open>Keyword arguments are a dictionary from parameter names to values.\<close>

type_synonym 'v kwargs = "string \<rightharpoonup> 'v"

text \<open>
  A class or a function object: its \<^verbatim>\<open>__name__\<close> and what calling it does.
\<close>

record 'f named =
  dunder_name :: string
  call :: 'f

text \<open>
  The module globals \<^verbatim>\<open>_TRANSFORMS\<close>, \<^verbatim>\<open>_TRANSFORMS_INITS\<close> and \<^verbatim>\<open>_FLOW_BUILDERS\<close>.
  A registered transform class is called with positional and keyword arguments; its
  initializer takes the dimension and the caller's keyword arguments and returns the
  default (positional, keyword) arguments.
\<close>

record ('c, 'i, 'b) registries =
  TRANSFORMS :: "string \<rightharpoonup> 'c named"
  TRANSFORMS_INITS :: "string \<rightharpoonup> 'i"
  FLOW_BUILDERS :: "string \<rightharpoonup> 'b named"

text \<open>
  \<^verbatim>\<open>register_transform(cls, name, inits)\<close>: the inner \<^verbatim>\<open>_register(cls)\<close>, which both call forms
  (direct and as a decorator) end in.
\<close>

definition register_transform ::
  "'c named \<Rightarrow> string option \<Rightarrow> 'i \<Rightarrow> ('c, 'i, 'b) registries \<Rightarrow> error + ('c, 'i, 'b) registries" where
  "register_transform cls name inits reg =
     (let cls_name = (case name of None \<Rightarrow> dunder_name cls | Some n \<Rightarrow> n) in
      case TRANSFORMS reg cls_name of
        Some _ \<Rightarrow> Inl (ValueError (''The transform '' @ cls_name @ '' is already registered''))
      | None \<Rightarrow>
          Inr (reg\<lparr>TRANSFORMS := (TRANSFORMS reg)(cls_name \<mapsto> cls),
                    TRANSFORMS_INITS := (TRANSFORMS_INITS reg)(cls_name \<mapsto> inits)\<rparr>))"

text \<open>
  \<^verbatim>\<open>get_transform(name, dim, **kwargs)\<close>. The helper \<^verbatim>\<open>filter_kwrags_for_func\<close> of the
  module \<^verbatim>\<open>vi_utils\<close> is a parameter.
\<close>

definition get_transform ::
  "(('p list \<Rightarrow> 'v kwargs \<Rightarrow> error + 't) named \<Rightarrow> 'v kwargs \<Rightarrow> 'v kwargs) \<Rightarrow>
   string \<Rightarrow> int \<Rightarrow> 'v kwargs \<Rightarrow>
   ('p list \<Rightarrow> 'v kwargs \<Rightarrow> error + 't, int \<Rightarrow> 'v kwargs \<Rightarrow> error + ('p list \<times> 'v kwargs), 'b) registries \<Rightarrow>
   error + 't" where
  "get_transform filter_kwrags_for_func name dimn kwargs reg =
     (let name = lower name in
      case TRANSFORMS reg name of
        None \<Rightarrow> Inl (KeyError name)
      | Some transform \<Rightarrow>
          (let overwritable_kwargs = filter_kwrags_for_func transform kwargs in
           case TRANSFORMS_INITS reg name of
             None \<Rightarrow> Inl (KeyError name)
           | Some inits \<Rightarrow>
               (case inits dimn kwargs of
                  Inl e \<Rightarrow> Inl e
                | Inr (args, default_kwargs) \<Rightarrow>
                    (let kwargs = default_kwargs ++ overwritable_kwargs in
                     case TRANSFORMS reg name of
                       None \<Rightarrow> Inl (KeyError name)
                     | Some cls \<Rightarrow> call cls args kwargs))))"

text \<open>\<^verbatim>\<open>register_flow_builder(cls, name)\<close>: again the inner \<^verbatim>\<open>_register(cls)\<close>.\<close>

definition register_flow_builder ::
  "'b named \<Rightarrow> string option \<Rightarrow> ('c, 'i, 'b) registries \<Rightarrow> error + ('c, 'i, 'b) registries" where
  "register_flow_builder cls name reg =
     (let cls_name = (case name of None \<Rightarrow> dunder_name cls | Some n \<Rightarrow> n) in
      case FLOW_BUILDERS reg cls_name of
        Some _ \<Rightarrow> Inl (ValueError (''The flow '' @ cls_name @ '' is not registered as default.''))
      | None \<Rightarrow> Inr (reg\<lparr>FLOW_BUILDERS := (FLOW_BUILDERS reg)(cls_name \<mapsto> cls)\<rparr>))"

text \<open>\<^verbatim>\<open>get_flow_builder(name, event_shape, link_flow, **kwargs)\<close>.\<close>

definition get_flow_builder ::
  "string \<Rightarrow> 's \<Rightarrow> 'l \<Rightarrow> 'v kwargs \<Rightarrow>
   ('c, 'i, 's \<Rightarrow> 'l \<Rightarrow> 'v kwargs \<Rightarrow> error + 'd) registries \<Rightarrow> error + 'd" where
  "get_flow_builder name event_shape link_flow kwargs reg =
     (case FLOW_BUILDERS reg name of
        None \<Rightarrow> Inl (KeyError name)
      | Some builder \<Rightarrow> call builder event_shape link_flow kwargs)"

section \<open>samplers/vi/vi_pyro_flows.py: build_flow\<close>

text \<open>
  A tensor shape (\<^verbatim>\<open>torch.Size\<close>) is a list of integers. \<^verbatim>\<open>torch.zeros(shape)\<close> raises on a
  negative entry; \<^verbatim>\<open>len(t)\<close> of a tensor is the size of its first dimension and raises on a
  zero-dimensional tensor.
\<close>

type_synonym shape = "int list"

definition torch_zeros :: "shape \<Rightarrow> error + shape" where
  "torch_zeros s =
     (if list_ex (\<lambda>n. n < 0) s
      then Inl (RuntimeError ''Trying to create tensor with negative dimension'')
      else Inr s)"

definition tensor_len :: "shape \<Rightarrow> error + int" where
  "tensor_len s = (case s of [] \<Rightarrow> Inl (TypeError ''len() of a 0-d tensor'') | n # _ \<Rightarrow> Inr n)"

text \<open>
  The elements of the list handed to \<^verbatim>\<open>TransformedDistribution\<close>: a registered transform
  built for a dimension, a permutation or batch normalisation of a dimension, and the
  link transform.
\<close>

datatype 't flow = Inner 't | Permute int | BatchNorm int | Link

datatype 'd base_distribution = StandardNormal shape | Given 'd

record ('d, 't) transformed_distribution =
  td_base_dist :: "'d base_distribution"
  td_transforms :: "'t flow list"

text \<open>
  The body of \<^verbatim>\<open>for i in range(num_flows)\<close>, the list \<^verbatim>\<open>flows\<close> threaded through.
\<close>

primrec flows_loop ::
  "(int \<Rightarrow> error + 't) \<Rightarrow> bool \<Rightarrow> bool \<Rightarrow> int \<Rightarrow> int \<Rightarrow> nat list \<Rightarrow> 't flow list \<Rightarrow> error + 't flow list" where
  "flows_loop get permute batch_norm num_flows dimn [] flows = Inr flows"
| "flows_loop get permute batch_norm num_flows dimn (i # rest) flows =
     (case get dimn of
        Inl e \<Rightarrow> Inl e
      | Inr t \<Rightarrow>
          flows_loop get permute batch_norm num_flows dimn rest
            (flows @ [Inner t]
               @ (if permute \<and> int i < num_flows - 1 then [Permute dimn] else [])
               @ (if batch_norm \<and> int i < num_flows - 1 then [BatchNorm dimn] else [])))"

text \<open>
  \<^verbatim>\<open>build_flow(event_shape, link_flow, num_flows, transform, permute, batch_norm, base_dist,
  **kwargs)\<close>. The link transform is given by what it does to the shape of its argument.
  \<^verbatim>\<open>len(...) - torch.tensor(event_shape)\<close> subtracts every entry of the shape from the length
  of the probe's result; the new shape is the old one minus that difference, entry by
  entry. \<^verbatim>\<open>torch.Size\<close> is a tuple, so the dimension is its last entry.
\<close>

definition build_flow ::
  "(('p list \<Rightarrow> 'v kwargs \<Rightarrow> error + 't) named \<Rightarrow> 'v kwargs \<Rightarrow> 'v kwargs) \<Rightarrow>
   ('p list \<Rightarrow> 'v kwargs \<Rightarrow> error + 't, int \<Rightarrow> 'v kwargs \<Rightarrow> error + ('p list \<times> 'v kwargs), 'b) registries \<Rightarrow>
   shape \<Rightarrow> (shape \<Rightarrow> error + shape) \<Rightarrow> int \<Rightarrow> string \<Rightarrow> bool \<Rightarrow> bool \<Rightarrow> 'd option \<Rightarrow> 'v kwargs \<Rightarrow>
   error + ('d, 't) transformed_distribution" where
  "build_flow filter_kwrags_for_func reg event_shape link_flow num_flows transform permute
      batch_norm base_dist kwargs =
     (case torch_zeros event_shape of
        Inl e \<Rightarrow> Inl e
      | Inr zeros \<Rightarrow>
     (case link_flow zeros of
        Inl e \<Rightarrow> Inl e
      | Inr out \<Rightarrow>
     (case tensor_len out of
        Inl e \<Rightarrow> Inl e
      | Inr n \<Rightarrow>
     (let additional_dim = map (\<lambda>s. n - s) event_shape;
          event_shape = map2 (\<lambda>s a. s - a) event_shape additional_dim in
      case (case base_dist of
              None \<Rightarrow> (case torch_zeros event_shape of
                           Inl e \<Rightarrow> Inl e
                         | Inr _ \<Rightarrow>
                             if event_shape = []
                             then Inl (ValueError ''Expected reinterpreted_batch_ndims <= len(base_distribution.batch_shape)'')
                             else Inr (StandardNormal event_shape))
            | Some d \<Rightarrow> Inr (Given d)) of
        Inl e \<Rightarrow> Inl e
      | Inr base_dist \<Rightarrow>
     (case event_shape of
        [] \<Rightarrow> Inl IndexError
      | _ # _ \<Rightarrow>
     (let dimn = last event_shape in
      case flows_loop (\<lambda>dimn. get_transform filter_kwrags_for_func transform dimn kwargs reg)
             permute batch_norm num_flows dimn [0..<nat num_flows] [] of
        Inl e \<Rightarrow> Inl e
      | Inr flows \<Rightarrow> Inr \<lparr>td_base_dist = base_dist, td_transforms = flows @ [Link]\<rparr>))))))"

section \<open>Tensors as lists\<close>

text \<open>
  A batch is a list of rows. \<open>chop n xs\<close> cuts a list into consecutive pieces of length
  \<open>n\<close>, the last one possibly shorter; it is what a row-major reshape and a batch sampler
  both do.
\<close>

fun chop :: "nat \<Rightarrow> 'a list \<Rightarrow> 'a list list" where
  "chop 0 xs = []"
| "chop (Suc n) [] = []"
| "chop (Suc n) (x # xs) = take (Suc n) (x # xs) # chop (Suc n) (drop n xs)"

text \<open>
  \<^verbatim>\<open>t.reshape(rows, -1)\<close> of a three-dimensional tensor: the elements in row-major order,
  cut into \<open>rows\<close> rows. Torch raises when \<open>rows\<close> is not positive or the element count is
  no multiple of \<open>rows\<close>; a tensor without elements becomes \<open>rows\<close> rows of no entry.
\<close>

definition reshape_rows :: "int \<Rightarrow> 'a list list list \<Rightarrow> error + 'a list list" where
  "reshape_rows rows t =
     (let flat = concat (concat t); numel = length flat in
      if rows \<le> 0 \<or> int numel mod rows \<noteq> 0
      then Inl (RuntimeError ''shape is invalid for input'')
      else if numel = 0 then Inr (replicate (nat rows) [])
      else Inr (chop (numel div nat rows) flat))"

text \<open>\<^verbatim>\<open>v.reshape(batch_size, num_atoms)\<close> of a vector.\<close>

definition reshape2 :: "int \<Rightarrow> int \<Rightarrow> 'a list \<Rightarrow> error + 'a list list" where
  "reshape2 rows cols v =
     (if rows < 0 \<or> cols < 0 \<or> int (length v) \<noteq> rows * cols
      then Inl (RuntimeError ''shape is invalid for input'')
      else Inr (if cols = 0 then replicate (nat rows) [] else chop (nat cols) v))"

text \<open>\<^verbatim>\<open>theta[choices]\<close>: row \<open>j\<close> of \<open>theta\<close> for every index \<open>j\<close> of the index matrix.\<close>

definition gather :: "'r list \<Rightarrow> nat list list \<Rightarrow> error + 'r list list" where
  "gather theta choices =
     (if list_all (list_all (\<lambda>j. j < length theta)) choices
      then Inr (map (map (\<lambda>j. theta ! j)) choices)
      else Inl IndexError)"

text \<open>
  \<^verbatim>\<open>torch.cat((a, b), dim=1)\<close>: both tensors have the same number of entries along
  dimension 0, and entry \<open>i\<close> of the result is entry \<open>i\<close> of \<open>a\<close> followed by entry \<open>i\<close> of \<open>b\<close>.
\<close>

definition cat_dim1 :: "'r list list \<Rightarrow> 'r list list \<Rightarrow> error + 'r list list" where
  "cat_dim1 a b =
     (if length a = length b then Inr (map2 (@) a b)
      else Inl (RuntimeError ''Sizes of tensors must match except in dimension 1''))"

text \<open>
  An elementwise binary operation on two vectors, with the broadcasting of a vector of
  length one.
\<close>

definition broadcast2 :: "('a \<Rightarrow> 'a \<Rightarrow> 'a) \<Rightarrow> 'a list \<Rightarrow> 'a list \<Rightarrow> error + 'a list" where
  "broadcast2 f xs ys =
     (if length xs = length ys then Inr (map2 f xs ys)
      else if length xs = 1 then Inr (map (f (hd xs)) ys)
      else if length ys = 1 then Inr (map (\<lambda>x. f x (hd ys)) xs)
      else Inl (RuntimeError ''The size of tensor a must match the size of tensor b''))"

text \<open>
  The arithmetic of the tensor library on loss values is a parameter: subtraction,
  addition, multiplication, negation, \<^verbatim>\<open>logsumexp\<close> along a row, and \<^verbatim>\<open>isfinite\<close>.
\<close>

record 'a tensor_ops =
  torch_sub :: "'a \<Rightarrow> 'a \<Rightarrow> 'a"
  torch_add :: "'a \<Rightarrow> 'a \<Rightarrow> 'a"
  torch_mul :: "'a \<Rightarrow> 'a \<Rightarrow> 'a"
  torch_neg :: "'a \<Rightarrow> 'a"
  torch_logsumexp :: "'a list \<Rightarrow> 'a"
  torch_isfinite :: "'a \<Rightarrow> bool"

section \<open>Helpers of sbi.utils and of the base classes\<close>

text \<open>
  Modelled from the spec: \<^verbatim>\<open>clamp_and_warn\<close> of \<^verbatim>\<open>sbi.utils\<close> is not part of the source files. The
  spec has an out-of-range value clamped with a warning into the valid range; the result
  is the clamped value together with the warnings logged.
\<close>

definition clamp_and_warn :: "string \<Rightarrow> int \<Rightarrow> int \<Rightarrow> int \<Rightarrow> int \<times> string list" where
  "clamp_and_warn name v min_val max_val =
     (let clamped_val = max min_val (min v max_val) in
      (clamped_val, if clamped_val \<noteq> v then [name @ '' was clamped''] else []))"

text \<open>
  Modelled from the spec: \<^verbatim>\<open>repeat_rows\<close> of \<^verbatim>\<open>sbi.utils\<close> is not part of the source files. The spec
  has each row duplicated \<open>K\<close> times contiguously, \<^verbatim>\<open>[1, 2] -> [1, 1, 2, 2]\<close>.
\<close>

definition repeat_rows :: "'x list \<Rightarrow> int \<Rightarrow> 'x list" where
  "repeat_rows x num_reps = concat (map (replicate (nat num_reps)) x)"

text \<open>
  Modelled from the spec: \<^verbatim>\<open>_assert_all_finite\<close> of the posterior estimator's base class is
  not part of the source files. The spec has a non-finite value as a fatal error, surfaced to the
  caller.
\<close>

definition assert_all_finite :: "'a tensor_ops \<Rightarrow> 'a list \<Rightarrow> string \<Rightarrow> error + unit" where
  "assert_all_finite ops quantity description =
     (if list_all (torch_isfinite ops) quantity then Inr ()
      else Inl (AssertionError (''NaN/Inf present in '' @ description @ ''.'')))"

section \<open>The atom sampler shared by both estimator families\<close>

text \<open>
  Sampling weights are floating-point numbers; they are modelled as exact rationals
  together with the two results a division by zero has.
\<close>

datatype weight = Fin rat | NaN | Infinite

definition float_div :: "rat \<Rightarrow> rat \<Rightarrow> weight" where
  "float_div a b = (if b \<noteq> 0 then Fin (a / b) else if a = 0 then NaN else Infinite)"

text \<open>\<^verbatim>\<open>ones(batch_size, batch_size) * (1 - eye(batch_size)) / (batch_size - 1)\<close>.\<close>

definition probs_matrix :: "nat \<Rightarrow> weight list list" where
  "probs_matrix batch_size =
     map (\<lambda>i. map (\<lambda>j. float_div (1 * (1 - (if i = j then 1 else 0))) (of_nat batch_size - 1))
                [0..<batch_size])
         [0..<batch_size]"

text \<open>
  \<^verbatim>\<open>torch.multinomial(probs, num_samples, replacement=False)\<close> is a random draw. By its
  documentation it raises unless every weight is finite and non-negative and every row has
  at least \<open>num_samples\<close> non-zero weights, with \<open>num_samples\<close> positive; otherwise it returns,
  for every row, \<open>num_samples\<close> pairwise different indices of non-zero weights.
\<close>

definition is_weight :: "weight \<Rightarrow> bool" where
  "is_weight w = (case w of Fin q \<Rightarrow> 0 \<le> q | _ \<Rightarrow> False)"

definition nonzero :: "weight \<Rightarrow> bool" where
  "nonzero w = (case w of Fin q \<Rightarrow> 0 < q | _ \<Rightarrow> False)"

definition multinomial_raises :: "weight list list \<Rightarrow> int \<Rightarrow> bool" where
  "multinomial_raises ps num_samples =
     (num_samples \<le> 0 \<or> ps = [] \<or>
      list_ex (\<lambda>row. \<not> list_all is_weight row \<or> int (length (filter nonzero row)) < num_samples) ps)"

definition multinomial_returns :: "weight list list \<Rightarrow> int \<Rightarrow> nat list list \<Rightarrow> bool" where
  "multinomial_returns ps num_samples choices =
     (length choices = length ps \<and>
      list_all2 (\<lambda>row cs. int (length cs) = num_samples \<and> distinct cs \<and>
                   list_all (\<lambda>j. j < length row \<and> nonzero (row ! j)) cs) ps choices)"

text \<open>
  A sampler conforms at a call when it does there what the documentation says: one of the
  possible draws when the arguments are valid, an exception when they are not.
\<close>

definition conforms :: "(weight list list \<Rightarrow> int \<Rightarrow> error + nat list list) \<Rightarrow> weight list list \<Rightarrow> int \<Rightarrow> bool" where
  "conforms multinomial ps num_samples =
     (case multinomial ps num_samples of
        Inl _ \<Rightarrow> multinomial_raises ps num_samples
      | Inr choices \<Rightarrow> \<not> multinomial_raises ps num_samples \<and> multinomial_returns ps num_samples choices)"

text \<open>
  The probability that drawing without replacement, with probabilities proportional to
  the weights still available, yields the indices \<open>cs\<close> in this order.
\<close>

fun draw_prob :: "rat list \<Rightarrow> nat list \<Rightarrow> rat" where
  "draw_prob w [] = 1"
| "draw_prob w (c # cs) =
     (if c < length w \<and> 0 < sum_list w
      then w ! c / sum_list w * draw_prob (w[c := 0]) cs
      else 0)"

text \<open>The number of ways to draw \<open>k\<close> items in order out of \<open>m\<close>: \<open>m (m - 1) \<dots> (m - k + 1)\<close>.\<close>

fun falling :: "nat \<Rightarrow> nat \<Rightarrow> nat" where
  "falling m 0 = 1"
| "falling m (Suc k) = m * falling (m - 1) k"

definition weight_rat :: "weight \<Rightarrow> rat" where
  "weight_rat w = (case w of Fin q \<Rightarrow> q | _ \<Rightarrow> 0)"

text \<open>
  The lines shared word for word by \<^verbatim>\<open>SNPE_C._log_prob_proposal_posterior\<close> and
  \<^verbatim>\<open>RatioEstimator._classifier_logits\<close>: from \<^verbatim>\<open>probs = ...\<close> to the reshaped
  \<^verbatim>\<open>atomic_theta\<close>. \<open>theta\<close> is a list of rows, each a list of numbers.
\<close>

definition make_atomic_theta ::
  "(weight list list \<Rightarrow> int \<Rightarrow> error + nat list list) \<Rightarrow> 'a list list \<Rightarrow> int \<Rightarrow> error + 'a list list" where
  "make_atomic_theta multinomial theta num_atoms =
     (let batch_size = length theta;
          probs = probs_matrix batch_size in
      case multinomial probs (num_atoms - 1) of
        Inl e \<Rightarrow> Inl e
      | Inr choices \<Rightarrow>
     (case gather theta choices of
        Inl e \<Rightarrow> Inl e
      | Inr contrasting_theta \<Rightarrow>
     (case cat_dim1 (map (\<lambda>t. [t]) theta) contrasting_theta of
        Inl e \<Rightarrow> Inl e
      | Inr stacked \<Rightarrow> reshape_rows (int batch_size * num_atoms) stacked)))"

section \<open>inference/snpe/snpe_c.py: the proposal-posterior loss\<close>

text \<open>\<^verbatim>\<open>t[:, 0]\<close>: entry 0 of every row; an empty row has none.\<close>

definition column0 :: "'a list list \<Rightarrow> error + 'a list" where
  "column0 t = (if list_ex (\<lambda>row. row = []) t then Inl IndexError else Inr (map (\<lambda>row. row ! 0) t))"

text \<open>
  \<^verbatim>\<open>SNPE_C._log_prob_proposal_posterior(theta, x, masks)\<close>. The density estimator
  (\<^verbatim>\<open>self._posterior.net.log_prob\<close>), the prior (\<^verbatim>\<open>self._prior.log_prob\<close>) and the sampler are
  collaborators and may raise; \<open>self_num_atoms\<close> and \<open>use_combined_loss\<close> are the fields
  \<^verbatim>\<open>self._num_atoms\<close> and \<^verbatim>\<open>self._use_combined_loss\<close>. The result is the warnings logged and
  the value returned or the exception raised.
\<close>

definition snpe_c_log_prob_proposal_posterior ::
  "'a tensor_ops \<Rightarrow> (weight list list \<Rightarrow> int \<Rightarrow> error + nat list list) \<Rightarrow>
   ('a list list \<Rightarrow> 'x list \<Rightarrow> error + 'a list) \<Rightarrow> ('a list list \<Rightarrow> error + 'a list) \<Rightarrow>
   int \<Rightarrow> bool \<Rightarrow> 'a list list \<Rightarrow> 'x list \<Rightarrow> 'a list list \<Rightarrow> string list \<times> (error + 'a list)" where
  "snpe_c_log_prob_proposal_posterior ops multinomial net_log_prob prior_log_prob self_num_atoms
      use_combined_loss theta x masks =
     (let batch_size = length theta;
          (num_atoms, warnings) = clamp_and_warn ''num_atoms'' self_num_atoms 2 (int batch_size);
          repeated_x = repeat_rows x num_atoms in
      (warnings,
       case make_atomic_theta multinomial theta num_atoms of
         Inl e \<Rightarrow> Inl e
       | Inr atomic_theta \<Rightarrow>
      (case net_log_prob atomic_theta repeated_x of
         Inl e \<Rightarrow> Inl e
       | Inr log_prob_posterior \<Rightarrow>
      (case assert_all_finite ops log_prob_posterior ''posterior eval'' of
         Inl e \<Rightarrow> Inl e
       | Inr _ \<Rightarrow>
      (case reshape2 (int batch_size) num_atoms log_prob_posterior of
         Inl e \<Rightarrow> Inl e
       | Inr log_prob_posterior \<Rightarrow>
      (case prior_log_prob atomic_theta of
         Inl e \<Rightarrow> Inl e
       | Inr log_prob_prior \<Rightarrow>
      (case reshape2 (int batch_size) num_atoms log_prob_prior of
         Inl e \<Rightarrow> Inl e
       | Inr log_prob_prior \<Rightarrow>
      (case assert_all_finite ops (concat log_prob_prior) ''prior eval'' of
         Inl e \<Rightarrow> Inl e
       | Inr _ \<Rightarrow>
      (let unnormalized_log_prob = map2 (map2 (torch_sub ops)) log_prob_posterior log_prob_prior in
       case column0 unnormalized_log_prob of
         Inl e \<Rightarrow> Inl e
       | Inr self_pair \<Rightarrow>
      (let log_prob_proposal_posterior =
             map2 (torch_sub ops) self_pair (map (torch_logsumexp ops) unnormalized_log_prob) in
       case assert_all_finite ops log_prob_proposal_posterior ''proposal posterior eval'' of
         Inl e \<Rightarrow> Inl e
       | Inr _ \<Rightarrow>
           if use_combined_loss then
             (case net_log_prob theta x of
                Inl e \<Rightarrow> Inl e
              | Inr log_prob_posterior_non_atomic \<Rightarrow>
                  (let masks = concat masks in
                   case broadcast2 (torch_mul ops) masks log_prob_posterior_non_atomic of
                     Inl e \<Rightarrow> Inl e
                   | Inr masked \<Rightarrow> broadcast2 (torch_add ops) masked log_prob_proposal_posterior))
           else Inr log_prob_proposal_posterior))))))))))"

text \<open>
  The value the spec gives for the loss, written from its words for the comparison with
  the function above. \<open>lp\<close> and \<open>pr\<close> are the model's and the prior's log-densities on the
  \<open>B * K\<close> atomic pairs; row \<open>i\<close> of their difference, reshaped to \<open>(B, K)\<close>, is
  \<open>unnormalized[i]\<close>, and the value of example \<open>i\<close> is
  \<^verbatim>\<open>unnormalized[i, 0] - logsumexp(unnormalized[i])\<close>.
\<close>

definition unnormalized_row :: "'a tensor_ops \<Rightarrow> 'a list \<Rightarrow> 'a list \<Rightarrow> nat \<Rightarrow> nat \<Rightarrow> 'a list" where
  "unnormalized_row ops lp pr K i =
     map (\<lambda>k. torch_sub ops (lp ! (i * K + k)) (pr ! (i * K + k))) [0..<K]"

definition atomic_log_prob :: "'a tensor_ops \<Rightarrow> 'a list \<Rightarrow> 'a list \<Rightarrow> nat \<Rightarrow> nat \<Rightarrow> 'a" where
  "atomic_log_prob ops lp pr K i =
     torch_sub ops (unnormalized_row ops lp pr K i ! 0)
       (torch_logsumexp ops (unnormalized_row ops lp pr K i))"

section \<open>inference/snre/snre_base.py: the ratio estimator\<close>

text \<open>
  \<^verbatim>\<open>RatioEstimator._classifier_logits(theta, x, num_atoms)\<close>; \<open>net\<close> is the classifier
  \<^verbatim>\<open>self._posterior.net\<close>.
\<close>

definition classifier_logits ::
  "(weight list list \<Rightarrow> int \<Rightarrow> error + nat list list) \<Rightarrow> ('a list list \<Rightarrow> error + 'o) \<Rightarrow>
   'a list list \<Rightarrow> 'a list list \<Rightarrow> int \<Rightarrow> error + 'o" where
  "classifier_logits multinomial net theta x num_atoms =
     (let repeated_x = repeat_rows x num_atoms in
      case make_atomic_theta multinomial theta num_atoms of
        Inl e \<Rightarrow> Inl e
      | Inr atomic_theta \<Rightarrow>
     (case cat_dim1 atomic_theta repeated_x of
        Inl e \<Rightarrow> Inl e
      | Inr theta_and_x \<Rightarrow> net theta_and_x))"

text \<open>
  The fields of a \<^verbatim>\<open>RatioEstimator\<close> that training reads and writes. \<open>'w\<close> is the state of a
  network (its weights); \<^verbatim>\<open>deepcopy\<close> of a value is an equal value.
\<close>

record ('w, 'a) ratio_estimator =
  theta_bank :: "'a list list list"
  x_bank :: "'a list list list"
  posterior :: 'w
  untrained_classifier :: "'w option"
  retrain_from_scratch_each_round :: bool

definition deepcopy :: "'w \<Rightarrow> 'w" where
  "deepcopy w = w"

text \<open>\<^verbatim>\<open>RatioEstimator.__init__\<close>, as far as these fields go.\<close>

definition ratio_estimator_init :: "'w \<Rightarrow> bool \<Rightarrow> ('w, 'a) ratio_estimator" where
  "ratio_estimator_init classifier retrain =
     \<lparr>theta_bank = [], x_bank = [], posterior = classifier,
      untrained_classifier = (if retrain then Some (deepcopy classifier) else None),
      retrain_from_scratch_each_round = retrain\<rparr>"

text \<open>
  The float arithmetic of \<^verbatim>\<open>int((1 - validation_fraction) * num_examples)\<close>: the
  conversion of an integer operand to a float, the float subtraction and multiplication,
  each with the rounding of the machine, and \<^verbatim>\<open>int(x)\<close>, which truncates towards zero and
  raises for a value that is no number. \<open>'f\<close> is the type of the float values.
\<close>

record 'f float_ops =
  float_of_int :: "int \<Rightarrow> 'f"
  float_sub :: "'f \<Rightarrow> 'f \<Rightarrow> 'f"
  float_mul :: "'f \<Rightarrow> 'f \<Rightarrow> 'f"
  float_int :: "'f \<Rightarrow> error + int"

text \<open>
  The floats of CPython are IEEE 754 binary64 numbers with rounding to the nearest, ties
  to the even significand. A finite one is a rational \<open>m * 2 ^ e\<close> with \<open>\<bar>m\<bar> < 2 ^ 53\<close>;
  \<open>round_double q\<close> is the one nearest to \<open>q\<close>. The range of the exponent (overflow,
  subnormal numbers) and the values that are no rational (infinities, NaN) are left out.
\<close>

definition py_int :: "rat \<Rightarrow> int" where
  "py_int q = (if 0 \<le> q then \<lfloor>q\<rfloor> else \<lceil>q\<rceil>)"

definition round_half_even :: "rat \<Rightarrow> int" where
  "round_half_even q =
     (let f = \<lfloor>q\<rfloor>; r = q - of_int f in
      if r < 1 / 2 then f else if 1 / 2 < r then f + 1 else if even f then f else f + 1)"

text \<open>The \<open>e\<close> with \<open>2 ^ e \<le> q < 2 ^ (e + 1)\<close>, for a positive \<open>q\<close>.\<close>

definition binary_exponent :: "rat \<Rightarrow> int" where
  "binary_exponent q = (if 1 \<le> q then bitlen \<lfloor>q\<rfloor> - 1 else - bitlen (\<lceil>1 / q\<rceil> - 1))"

definition pow2 :: "int \<Rightarrow> rat" where
  "pow2 e = (if 0 \<le> e then 2 ^ nat e else 1 / 2 ^ nat (- e))"

definition round_double :: "rat \<Rightarrow> rat" where
  "round_double q =
     (if q = 0 then 0
      else (let e = binary_exponent \<bar>q\<bar>;
                m = round_half_even (\<bar>q\<bar> * pow2 (52 - e)) in
            sgn q * of_int m * pow2 (e - 52)))"

definition double_ops :: "rat float_ops" where
  "double_ops =
     \<lparr>float_of_int = (\<lambda>i. round_double (of_int i)),
      float_sub = (\<lambda>a b. round_double (a - b)),
      float_mul = (\<lambda>a b. round_double (a * b)),
      float_int = (\<lambda>a. Inr (py_int a))\<rparr>"

text \<open>The slices \<^verbatim>\<open>xs[:k]\<close> and \<^verbatim>\<open>xs[k:]\<close>; a negative \<open>k\<close> counts from the end.\<close>

definition slice_to :: "'e list \<Rightarrow> int \<Rightarrow> 'e list" where
  "slice_to xs k = (if 0 \<le> k then take (nat k) xs else take (length xs - nat (- k)) xs)"

definition slice_from :: "'e list \<Rightarrow> int \<Rightarrow> 'e list" where
  "slice_from xs k = (if 0 \<le> k then drop (nat k) xs else drop (length xs - nat (- k)) xs)"

text \<open>
  \<^verbatim>\<open>data.TensorDataset(torch.cat(theta_bank), torch.cat(x_bank))\<close>: concatenating no
  tensor raises, and so do tensors of different length.
\<close>

definition TensorDataset :: "'a list list list \<Rightarrow> 'a list list list \<Rightarrow> error + ('a list \<times> 'a list) list" where
  "TensorDataset thetas xs =
     (if thetas = [] \<or> xs = [] then Inl (RuntimeError ''torch.cat(): expected a non-empty list of Tensors'')
      else if length (concat thetas) \<noteq> length (concat xs) then Inl (AssertionError ''Size mismatch between tensors'')
      else Inr (zip (concat thetas) (concat xs)))"

text \<open>
  \<^verbatim>\<open>data.DataLoader(dataset, batch_size, drop_last, sampler=SubsetRandomSampler(indices))\<close>:
  the batch sampler refuses a batch size that is not positive.
\<close>

record data_loader =
  dl_batch_size :: int
  dl_drop_last :: bool
  dl_indices :: "nat list"

definition DataLoader :: "int \<Rightarrow> bool \<Rightarrow> nat list \<Rightarrow> error + data_loader" where
  "DataLoader batch_size drop_last indices =
     (if batch_size \<le> 0 then Inl (ValueError ''batch_size should be a positive integer value'')
      else Inr \<lparr>dl_batch_size = batch_size, dl_drop_last = drop_last, dl_indices = indices\<rparr>)"

text \<open>
  The minibatches of one pass over a loader. \<^verbatim>\<open>SubsetRandomSampler\<close> yields
  \<^verbatim>\<open>indices[i] for i in torch.randperm(len(indices))\<close>; \<open>perm\<close> is the result of that
  \<^verbatim>\<open>randperm\<close>. The batch sampler cuts the indices yielded into pieces of \<open>batch_size\<close> and,
  with \<open>drop_last\<close>, leaves out a last piece that is shorter.
\<close>

definition loader_batches :: "data_loader \<Rightarrow> nat list \<Rightarrow> 'e list \<Rightarrow> 'e list list" where
  "loader_batches dl perm dataset =
     (let order = map (\<lambda>i. dl_indices dl ! i) perm;
          pieces = chop (nat (dl_batch_size dl)) order;
          pieces = (if dl_drop_last dl then filter (\<lambda>b. int (length b) = dl_batch_size dl) pieces
                    else pieces) in
      map (map (\<lambda>i. dataset ! i)) pieces)"

text \<open>
  \<^verbatim>\<open>RatioEstimator._train\<close> from its first line to the start of the epoch loop. \<open>randperm\<close>
  is \<^verbatim>\<open>torch.randperm\<close> and \<open>fl\<close> the float arithmetic. The result of \<^verbatim>\<open>clamp_and_warn\<close> is
  not bound to a name in the source: only its warning has an effect. The record holds what
  the epoch loop then works with; \<open>ts_num_atoms\<close> is the \<open>num_atoms\<close> it hands to
  \<^verbatim>\<open>self._loss\<close>.
\<close>

record ('w, 'a) train_start =
  ts_self :: "('w, 'a) ratio_estimator"
  ts_dataset :: "('a list \<times> 'a list) list"
  ts_train_loader :: data_loader
  ts_val_loader :: data_loader
  ts_num_validation_examples :: int
  ts_num_atoms :: int

definition train ::
  "'f float_ops \<Rightarrow> (nat \<Rightarrow> nat list) \<Rightarrow> ('w, 'a) ratio_estimator \<Rightarrow> int \<Rightarrow> int \<Rightarrow> 'f \<Rightarrow>
   string list \<times> (error + ('w, 'a) train_start)" where
  "train fl randperm self num_atoms batch_size validation_fraction =
     (let num_examples = sum_list (map length (theta_bank self));
          permuted_indices = randperm num_examples in
      case float_int fl (float_mul fl (float_sub fl (float_of_int fl 1) validation_fraction)
                           (float_of_int fl (int num_examples))) of
        Inl e \<Rightarrow> ([], Inl e)
      | Inr num_training_examples \<Rightarrow>
     (let num_validation_examples = int num_examples - num_training_examples;
          train_indices = slice_to permuted_indices num_training_examples;
          val_indices = slice_from permuted_indices num_training_examples;
          clipped_batch_size = min batch_size num_validation_examples;
          (unused, warnings) = clamp_and_warn ''num_atoms'' num_atoms 2 clipped_batch_size in
      (warnings,
       case TensorDataset (theta_bank self) (x_bank self) of
         Inl e \<Rightarrow> Inl e
       | Inr dataset \<Rightarrow>
      (case DataLoader clipped_batch_size True train_indices of
         Inl e \<Rightarrow> Inl e
       | Inr train_loader \<Rightarrow>
      (case DataLoader clipped_batch_size False val_indices of
         Inl e \<Rightarrow> Inl e
       | Inr val_loader \<Rightarrow>
      (let self = (if retrain_from_scratch_each_round self
                   then self\<lparr>posterior := deepcopy (posterior self)\<rparr> else self) in
       Inr \<lparr>ts_self = self, ts_dataset = dataset, ts_train_loader = train_loader,
            ts_val_loader = val_loader, ts_num_validation_examples = num_validation_examples,
            ts_num_atoms = num_atoms\<rparr>))))))"

text \<open>
  One pass of the epoch loop over the minibatches of the training loader: the loss of
  every minibatch is computed with \<open>num_atoms\<close>, and the optimizer step (a collaborator)
  turns the network state and the loss into the next network state.
\<close>

fun train_epoch ::
  "('w \<Rightarrow> 'a list list \<Rightarrow> 'a list list \<Rightarrow> int \<Rightarrow> error + 'l) \<Rightarrow> ('w \<Rightarrow> 'l \<Rightarrow> 'w) \<Rightarrow> int \<Rightarrow>
   'w \<Rightarrow> ('a list \<times> 'a list) list list \<Rightarrow> error + 'w" where
  "train_epoch loss step num_atoms w [] = Inr w"
| "train_epoch loss step num_atoms w (batch # rest) =
     (case loss w (map fst batch) (map snd batch) num_atoms of
        Inl e \<Rightarrow> Inl e
      | Inr l \<Rightarrow> train_epoch loss step num_atoms (step w l) rest)"

section \<open>inference/snre/snre_base.py: the potential function provider\<close>

text \<open>A tensor handed to a potential function is a vector or a matrix.\<close>

datatype 'a tensor = Vec "'a list" | Mat "'a list list"

definition tensor_cat_dim1 :: "'a tensor \<Rightarrow> 'a tensor \<Rightarrow> error + 'a tensor" where
  "tensor_cat_dim1 a b =
     (case (a, b) of
        (Mat ra, Mat rb) \<Rightarrow> (case cat_dim1 ra rb of Inl e \<Rightarrow> Inl e | Inr r \<Rightarrow> Inr (Mat r))
      | _ \<Rightarrow> Inl IndexError)"

text \<open>
  \<^verbatim>\<open>t.reshape(1, -1)\<close>: all elements in one row, which has no entry when the tensor has
  no element.
\<close>

definition reshape_one_row :: "'a tensor \<Rightarrow> 'a list list" where
  "reshape_one_row t = [case t of Vec v \<Rightarrow> v | Mat m \<Rightarrow> concat m]"

text \<open>
  \<^verbatim>\<open>PotentialFunctionProvider.np_potential(theta)\<close> and \<^verbatim>\<open>pyro_potential(theta)\<close>. The
  conversions \<^verbatim>\<open>torch.as_tensor\<close>, \<^verbatim>\<open>ensure_theta_batched\<close> and \<^verbatim>\<open>ensure_x_batched\<close> are
  parameters (the latter two belong to \<^verbatim>\<open>sbi.utils.torchutils\<close>); \<open>self_x\<close> is \<^verbatim>\<open>self.x\<close>. The
  dictionary handed to \<^verbatim>\<open>pyro_potential\<close> is the list of its items in insertion order.
\<close>

definition np_potential ::
  "'o tensor_ops \<Rightarrow> ('n \<Rightarrow> 'a tensor) \<Rightarrow> ('a tensor \<Rightarrow> 'a tensor) \<Rightarrow> ('a tensor \<Rightarrow> 'a tensor) \<Rightarrow>
   ('a tensor \<Rightarrow> error + 'o) \<Rightarrow> ('a list list \<Rightarrow> error + 'o) \<Rightarrow> 'a tensor \<Rightarrow> 'n \<Rightarrow> error + 'o" where
  "np_potential ops as_tensor ensure_theta_batched ensure_x_batched prior_log_prob classifier
      self_x theta =
     (let theta = as_tensor theta;
          theta = ensure_theta_batched theta;
          x = ensure_x_batched self_x in
      case tensor_cat_dim1 theta x of
        Inl e \<Rightarrow> Inl e
      | Inr theta_x \<Rightarrow>
     (case classifier (reshape_one_row theta_x) of
        Inl e \<Rightarrow> Inl e
      | Inr log_ratio \<Rightarrow>
     (case prior_log_prob theta of
        Inl e \<Rightarrow> Inl e
      | Inr log_prior \<Rightarrow> Inr (torch_add ops log_ratio log_prior))))"

definition pyro_potential ::
  "'o tensor_ops \<Rightarrow> ('a tensor \<Rightarrow> 'a tensor) \<Rightarrow> ('a tensor \<Rightarrow> 'a tensor) \<Rightarrow>
   ('a tensor \<Rightarrow> error + 'o) \<Rightarrow> ('a list list \<Rightarrow> error + 'o) \<Rightarrow> 'a tensor \<Rightarrow>
   (string \<times> 'a tensor) list \<Rightarrow> error + 'o" where
  "pyro_potential ops ensure_theta_batched ensure_x_batched prior_log_prob classifier self_x theta =
     (case theta of
        [] \<Rightarrow> Inl StopIteration
      | (key, theta) # _ \<Rightarrow>
     (let theta = ensure_theta_batched theta;
          x = ensure_x_batched self_x in
      case tensor_cat_dim1 theta x of
        Inl e \<Rightarrow> Inl e
      | Inr theta_x \<Rightarrow>
     (case classifier (reshape_one_row theta_x) of
        Inl e \<Rightarrow> Inl e
      | Inr log_ratio \<Rightarrow>
     (case prior_log_prob theta of
        Inl e \<Rightarrow> Inl e
      | Inr log_prior \<Rightarrow> Inr (torch_neg ops (torch_add ops log_ratio log_prior))))))"

section \<open>Concrete inputs\<close>

text \<open>
  A small registry: transform classes that return their name and positional arguments, an
  initializer that passes the dimension on, and a flow builder that returns the event
  shape.
\<close>

definition example_cls :: "string \<Rightarrow> (int list \<Rightarrow> int kwargs \<Rightarrow> error + string \<times> int list) named" where
  "example_cls n = \<lparr>dunder_name = n, call = (\<lambda>args kw. Inr (n, args))\<rparr>"

definition example_inits :: "int \<Rightarrow> int kwargs \<Rightarrow> error + (int list \<times> int kwargs)" where
  "example_inits dimn kw = Inr ([dimn], Map.empty)"

definition example_builder :: "(shape \<Rightarrow> unit \<Rightarrow> int kwargs \<Rightarrow> error + shape) named" where
  "example_builder = \<lparr>dunder_name = ''gaussian_flow_builder'', call = (\<lambda>s l kw. Inr s)\<rparr>"

definition example_registries ::
  "(int list \<Rightarrow> int kwargs \<Rightarrow> error + string \<times> int list,
    int \<Rightarrow> int kwargs \<Rightarrow> error + (int list \<times> int kwargs),
    shape \<Rightarrow> unit \<Rightarrow> int kwargs \<Rightarrow> error + shape) registries" where
  "example_registries =
     \<lparr>TRANSFORMS = [''affine_diag'' \<mapsto> example_cls ''AffineTransform''],
      TRANSFORMS_INITS = [''affine_diag'' \<mapsto> example_inits],
      FLOW_BUILDERS = [''gaussian'' \<mapsto> example_builder]\<rparr>"

text \<open>The same registry after a second transform was registered as \<^verbatim>\<open>Affine_Diag\<close>.\<close>

definition twin_registries ::
  "(int list \<Rightarrow> int kwargs \<Rightarrow> error + string \<times> int list,
    int \<Rightarrow> int kwargs \<Rightarrow> error + (int list \<times> int kwargs),
    shape \<Rightarrow> unit \<Rightarrow> int kwargs \<Rightarrow> error + shape) registries" where
  "twin_registries =
     example_registries\<lparr>TRANSFORMS := (TRANSFORMS example_registries)(''Affine_Diag'' \<mapsto> example_cls ''Shadowed''),
                        TRANSFORMS_INITS := (TRANSFORMS_INITS example_registries)(''Affine_Diag'' \<mapsto> example_inits)\<rparr>"

text \<open>
  What \<^verbatim>\<open>build_flow\<close> may put before the link transform: the transform \<open>t\<close>, or a
  permutation or batch normalisation of dimension \<open>d\<close>.
\<close>

definition layer_ok :: "'t \<Rightarrow> int \<Rightarrow> 't flow \<Rightarrow> bool" where
  "layer_ok t d u = (u = Inner t \<or> u = Permute d \<or> u = BatchNorm d)"

text \<open>
  A ratio estimator constructed with a classifier in state 0 and configured to retrain
  from scratch, after two rounds of six and four simulations: its posterior network is in
  state 1, the copy kept at construction in state 0.
\<close>

definition example_estimator :: "(int, int) ratio_estimator" where
  "example_estimator =
     (ratio_estimator_init 0 True)
       \<lparr>theta_bank := [[[1], [2], [3], [4], [5], [6]], [[7], [8], [9], [10]]],
        x_bank := [[[10], [20], [30], [40], [50], [60]], [[70], [80], [90], [100]]],
        posterior := 1\<rparr>"

text \<open>A bank of one round of 90 simulations.\<close>

definition bank90 :: "(int, int) ratio_estimator" where
  "bank90 = (ratio_estimator_init 0 False)
     \<lparr>theta_bank := [map (\<lambda>i. [int i]) [0..<90]], x_bank := [map (\<lambda>i. [int i]) [0..<90]]\<rparr>"

text \<open>
  Loss values for concrete inputs: the reals, with one more value that is not finite and
  that every operation propagates.
\<close>

datatype num = Num real | NotANumber

definition num_ops :: "num tensor_ops" where
  "num_ops =
     \<lparr>torch_sub = (\<lambda>a b. case (a, b) of (Num x, Num y) \<Rightarrow> Num (x - y) | _ \<Rightarrow> NotANumber),
      torch_add = (\<lambda>a b. case (a, b) of (Num x, Num y) \<Rightarrow> Num (x + y) | _ \<Rightarrow> NotANumber),
      torch_mul = (\<lambda>a b. case (a, b) of (Num x, Num y) \<Rightarrow> Num (x * y) | _ \<Rightarrow> NotANumber),
      torch_neg = (\<lambda>a. case a of Num x \<Rightarrow> Num (- x) | _ \<Rightarrow> NotANumber),
      torch_logsumexp = (\<lambda>xs. if list_all (\<lambda>a. a \<noteq> NotANumber) xs
                             then Num (ln (sum_list (map (\<lambda>a. case a of Num x \<Rightarrow> exp x | _ \<Rightarrow> 0) xs)))
                             else NotANumber),
      torch_isfinite = (\<lambda>a. a \<noteq> NotANumber)\<rparr>"

text \<open>A batching helper for concrete inputs: a vector becomes a one-row matrix.\<close>

definition unsqueeze0 :: "'a tensor \<Rightarrow> 'a tensor" where
  "unsqueeze0 t = (case t of Vec v \<Rightarrow> Mat [v] | Mat m \<Rightarrow> Mat m)"

text \<open>
  A sampler for concrete inputs: it raises where \<^verbatim>\<open>torch.multinomial\<close> must, and otherwise
  draws, in every row, the first indices of non-zero weight.
\<close>

definition first_choice_multinomial :: "weight list list \<Rightarrow> int \<Rightarrow> error + nat list list" where
  "first_choice_multinomial ps num_samples =
     (if multinomial_raises ps num_samples then Inl (RuntimeError ''invalid multinomial distribution'')
      else Inr (map (\<lambda>row. take (nat num_samples) (filter (\<lambda>j. nonzero (row ! j)) [0..<length row])) ps))"

text \<open>
  The same loss values with a subtraction that overflows, as single-precision floats do:
  a difference beyond the largest float is not finite.
\<close>

definition float32_max :: real where
  "float32_max = 340282346638528859811704183484516925440"

definition float32_ops :: "num tensor_ops" where
  "float32_ops =
     num_ops\<lparr>torch_sub :=
       (\<lambda>a b. case (a, b) of
                 (Num x, Num y) \<Rightarrow> if \<bar>x - y\<bar> \<le> float32_max then Num (x - y) else NotANumber
               | _ \<Rightarrow> NotANumber)\<rparr>"

text \<open>
  A batch of two one-dimensional parameters and its atoms for \<open>K = 2\<close>; a density estimator
  whose log-density of a pair is the first entry of the parameter row, and one that is
  constant (also used as the prior's log-density).
\<close>

definition theta2 :: "num list list" where
  "theta2 = [[Num 1], [Num 2]]"

definition atoms2 :: "num list list" where
  "atoms2 = [[Num 1], [Num 2], [Num 2], [Num 1]]"

definition first_entry :: "num list list \<Rightarrow> nat list \<Rightarrow> error + num list" where
  "first_entry a rx = Inr (map hd a)"

definition constant_log_prob :: "num \<Rightarrow> num list list \<Rightarrow> error + num list" where
  "constant_log_prob c a = Inr (map (\<lambda>row. c) a)"

section \<open>Properties of the registries\<close>

lemma char_of_bits:
  "char_of (n::nat) =
     Char (odd n) (odd (n div 2)) (odd (n div 4)) (odd (n div 8)) (odd (n div 16))
          (odd (n div 32)) (odd (n div 64)) (odd (n div 128))"
  by (simp add: char_of_def bit_iff_odd div_mult2_eq[symmetric] flip: power_Suc)

lemmas lower_eval = lower_def lower_char_def isupper_char_def char_of_bits

lemma lower_char_not_upper: "\<not> isupper_char (lower_char c)"
  by (simp add: lower_char_def isupper_char_def)

lemma lower_never_upper: "list_ex isupper_char key \<Longrightarrow> lower requested \<noteq> key"
  by (auto simp: lower_def list_ex_iff lower_char_not_upper)

text \<open>
  C6, as the code has it. Registering under a name that is already a key raises
  \<^verbatim>\<open>ValueError\<close>, in both registries, and a registration that succeeds leaves every
  existing entry as it was. \<^verbatim>\<open>get_flow_builder\<close> raises \<^verbatim>\<open>KeyError\<close> for a name that is no
  key and calls the builder registered under a name that is one. \<^verbatim>\<open>get_transform\<close> looks up
  the lowercased name (names are ASCII strings): it raises \<^verbatim>\<open>KeyError\<close> when the lowercased
  name is no key, and when the lowercased name is a key with an initializer it returns
  what the initializer and the class registered under the lowercased name return or raise.
\<close>

theorem registries_checked:
  fixes reg :: "('p list \<Rightarrow> 'v kwargs \<Rightarrow> error + 't, int \<Rightarrow> 'v kwargs \<Rightarrow> error + ('p list \<times> 'v kwargs),
                 's \<Rightarrow> 'l \<Rightarrow> 'v kwargs \<Rightarrow> error + 'd) registries"
  shows
  "(TRANSFORMS reg (case name of None \<Rightarrow> dunder_name cls | Some n \<Rightarrow> n) \<noteq> None \<longrightarrow>
      (\<exists>msg. register_transform cls name inits reg = Inl (ValueError msg))) \<and>
   (register_transform cls name inits reg = Inr reg' \<longrightarrow>
      (\<forall>k. TRANSFORMS reg k \<noteq> None \<longrightarrow>
         TRANSFORMS reg' k = TRANSFORMS reg k \<and> TRANSFORMS_INITS reg' k = TRANSFORMS_INITS reg k)) \<and>
   (FLOW_BUILDERS reg (case bname of None \<Rightarrow> dunder_name builder | Some n \<Rightarrow> n) \<noteq> None \<longrightarrow>
      (\<exists>msg. register_flow_builder builder bname reg = Inl (ValueError msg))) \<and>
   (register_flow_builder builder bname reg = Inr reg'' \<longrightarrow>
      (\<forall>k. FLOW_BUILDERS reg k \<noteq> None \<longrightarrow> FLOW_BUILDERS reg'' k = FLOW_BUILDERS reg k)) \<and>
   (FLOW_BUILDERS reg requested = None \<longrightarrow>
      get_flow_builder requested event_shape link_flow kwargs reg = Inl (KeyError requested)) \<and>
   (FLOW_BUILDERS reg requested = Some registered_builder \<longrightarrow>
      get_flow_builder requested event_shape link_flow kwargs reg
        = call registered_builder event_shape link_flow kwargs) \<and>
   (TRANSFORMS reg (lower requested) = None \<longrightarrow>
      get_transform filter_kwrags_for_func requested dimn kwargs reg = Inl (KeyError (lower requested))) \<and>
   (TRANSFORMS reg (lower requested) = Some registered_cls \<and>
    TRANSFORMS_INITS reg (lower requested) = Some registered_inits \<longrightarrow>
      get_transform filter_kwrags_for_func requested dimn kwargs reg =
        (case registered_inits dimn kwargs of
           Inl e \<Rightarrow> Inl e
         | Inr (args, default_kwargs) \<Rightarrow>
             call registered_cls args (default_kwargs ++ filter_kwrags_for_func registered_cls kwargs)))"
  by (auto simp: register_transform_def register_flow_builder_def get_flow_builder_def
        get_transform_def Let_def split: option.splits sum.splits prod.splits)

theorem registries_checked_witness:
  "TRANSFORMS example_registries ''affine_diag'' \<noteq> None \<and>
   (\<exists>msg. register_transform (example_cls ''Other'') (Some ''affine_diag'') example_inits example_registries
          = Inl (ValueError msg)) \<and>
   FLOW_BUILDERS example_registries ''gaussian'' \<noteq> None \<and>
   (\<exists>msg. register_flow_builder example_builder (Some ''gaussian'') example_registries = Inl (ValueError msg)) \<and>
   FLOW_BUILDERS example_registries ''realnvp'' = None \<and>
   get_flow_builder ''realnvp'' [5] () Map.empty example_registries = Inl (KeyError ''realnvp'') \<and>
   TRANSFORMS example_registries (lower ''Realnvp'') = None \<and>
   get_transform (\<lambda>c kw. kw) ''Realnvp'' 3 Map.empty example_registries = Inl (KeyError ''realnvp'') \<and>
   FLOW_BUILDERS example_registries ''gaussian'' = Some example_builder \<and>
   get_flow_builder ''gaussian'' [5] () Map.empty example_registries = Inr [5] \<and>
   TRANSFORMS example_registries (lower ''Affine_Diag'') = Some (example_cls ''AffineTransform'') \<and>
   TRANSFORMS_INITS example_registries (lower ''Affine_Diag'') = Some example_inits \<and>
   get_transform (\<lambda>c kw. kw) ''Affine_Diag'' 3 Map.empty example_registries = Inr (''AffineTransform'', [3]) \<and>
   register_transform (example_cls ''Other'') None example_inits example_registries
     = Inr (example_registries\<lparr>TRANSFORMS := (TRANSFORMS example_registries)(''Other'' \<mapsto> example_cls ''Other''),
              TRANSFORMS_INITS := (TRANSFORMS_INITS example_registries)(''Other'' \<mapsto> example_inits)\<rparr>) \<and>
   TRANSFORMS (example_registries\<lparr>TRANSFORMS := (TRANSFORMS example_registries)(''Other'' \<mapsto> example_cls ''Other''),
              TRANSFORMS_INITS := (TRANSFORMS_INITS example_registries)(''Other'' \<mapsto> example_inits)\<rparr>) ''affine_diag''
     = TRANSFORMS example_registries ''affine_diag'' \<and>
   register_flow_builder example_builder None example_registries
     = Inr (example_registries\<lparr>FLOW_BUILDERS := (FLOW_BUILDERS example_registries)(''gaussian_flow_builder'' \<mapsto> example_builder)\<rparr>) \<and>
   FLOW_BUILDERS (example_registries\<lparr>FLOW_BUILDERS := (FLOW_BUILDERS example_registries)(''gaussian_flow_builder'' \<mapsto> example_builder)\<rparr>) ''gaussian''
     = FLOW_BUILDERS example_registries ''gaussian''"
  using registries_checked [where reg = example_registries and name = "Some ''affine_diag''"
          and cls = "example_cls ''Other''" and inits = example_inits
          and bname = "Some ''gaussian''" and builder = example_builder
          and requested = "''realnvp''" and event_shape = "[5]" and link_flow = "()" and kwargs = Map.empty]
        registries_checked [where reg = example_registries and name = None
          and cls = "example_cls ''Other''" and inits = example_inits
          and bname = None and builder = example_builder
          and requested = "''Realnvp''" and filter_kwrags_for_func = "\<lambda>c kw. kw" and dimn = 3 and kwargs = Map.empty]
        registries_checked [where reg = example_registries and name = None
          and cls = "example_cls ''Other''" and inits = example_inits
          and bname = None and builder = example_builder
          and requested = "''gaussian''" and event_shape = "[5]" and link_flow = "()" and kwargs = Map.empty
          and registered_builder = example_builder]
        registries_checked [where reg = example_registries and name = None
          and cls = "example_cls ''Other''" and inits = example_inits
          and bname = None and builder = example_builder
          and requested = "''Affine_Diag''" and filter_kwrags_for_func = "\<lambda>c kw. kw" and dimn = 3
          and kwargs = Map.empty and registered_cls = "example_cls ''AffineTransform''"
          and registered_inits = example_inits]
  by (simp add: example_registries_def example_cls_def example_builder_def example_inits_def
        register_transform_def register_flow_builder_def Let_def lower_eval)

text \<open>
  C6 as stated fails for \<^verbatim>\<open>get_transform\<close>: \<^verbatim>\<open>AFFINE_DIAG\<close> is no key of the registry, and
  looking it up returns the transform registered as \<^verbatim>\<open>affine_diag\<close>.
\<close>

theorem get_transform_unregistered_name_counterexample:
  "TRANSFORMS example_registries ''AFFINE_DIAG'' = None \<and>
   get_transform (\<lambda>c kw. kw) ''AFFINE_DIAG'' 3 Map.empty example_registries = Inr (''AffineTransform'', [3])"
  by (simp add: get_transform_def example_registries_def example_cls_def example_inits_def lower_eval)

text \<open>
  C9, as the code has it. \<^verbatim>\<open>get_transform\<close> looks up the lowercased name: it raises
  \<^verbatim>\<open>KeyError\<close> when that is no key, and otherwise instantiates the class stored under the
  lowercased name with the arguments its initializer gives. \<^verbatim>\<open>register_transform\<close> stores
  the name verbatim, so after a successful registration under a name with an uppercase
  letter the entry is there, every lookup gives what it gave before the registration, and a
  lookup of the registered name itself raises \<^verbatim>\<open>KeyError\<close> unless the lowercased name is a
  key as well.
\<close>

theorem get_transform_lowercases:
  fixes reg :: "('p list \<Rightarrow> 'v kwargs \<Rightarrow> error + 't, int \<Rightarrow> 'v kwargs \<Rightarrow> error + ('p list \<times> 'v kwargs), 'b) registries"
  shows
  "(TRANSFORMS reg (lower requested) = None \<longrightarrow>
      get_transform f requested dimn kwargs reg = Inl (KeyError (lower requested))) \<and>
   (TRANSFORMS reg (lower requested) = Some cls \<and> TRANSFORMS_INITS reg (lower requested) = Some ini \<longrightarrow>
      get_transform f requested dimn kwargs reg =
        (case ini dimn kwargs of
           Inl e \<Rightarrow> Inl e
         | Inr (args, default_kwargs) \<Rightarrow> call cls args (default_kwargs ++ f cls kwargs))) \<and>
   (list_ex isupper_char (case name of None \<Rightarrow> dunder_name new | Some n \<Rightarrow> n) \<and>
    register_transform new name inits reg = Inr reg' \<longrightarrow>
      TRANSFORMS reg' (case name of None \<Rightarrow> dunder_name new | Some n \<Rightarrow> n) = Some new \<and>
      get_transform f requested dimn kwargs reg' = get_transform f requested dimn kwargs reg \<and>
      (TRANSFORMS reg (lower (case name of None \<Rightarrow> dunder_name new | Some n \<Rightarrow> n)) = None \<longrightarrow>
         get_transform f (case name of None \<Rightarrow> dunder_name new | Some n \<Rightarrow> n) dimn kwargs reg'
           = Inl (KeyError (lower (case name of None \<Rightarrow> dunder_name new | Some n \<Rightarrow> n)))))"
proof (intro conjI impI)
  assume "TRANSFORMS reg (lower requested) = None"
  then show "get_transform f requested dimn kwargs reg = Inl (KeyError (lower requested))"
    by (simp add: get_transform_def Let_def)
next
  assume "TRANSFORMS reg (lower requested) = Some cls \<and> TRANSFORMS_INITS reg (lower requested) = Some ini"
  then show "get_transform f requested dimn kwargs reg =
        (case ini dimn kwargs of
           Inl e \<Rightarrow> Inl e
         | Inr (args, default_kwargs) \<Rightarrow> call cls args (default_kwargs ++ f cls kwargs))"
    by (simp add: get_transform_def Let_def split: sum.splits prod.splits)
next
  let ?key = "case name of None \<Rightarrow> dunder_name new | Some n \<Rightarrow> n"
  assume a: "list_ex isupper_char ?key \<and> register_transform new name inits reg = Inr reg'"
  then have reg': "reg' = reg\<lparr>TRANSFORMS := (TRANSFORMS reg)(?key \<mapsto> new),
                              TRANSFORMS_INITS := (TRANSFORMS_INITS reg)(?key \<mapsto> inits)\<rparr>"
    by (auto simp: register_transform_def Let_def split: option.splits)
  have ne: "lower s \<noteq> ?key" for s
    using a lower_never_upper by blast
  have t1: "TRANSFORMS reg' (lower s) = TRANSFORMS reg (lower s)" for s
    by (simp add: reg' ne)
  have t2: "TRANSFORMS_INITS reg' (lower s) = TRANSFORMS_INITS reg (lower s)" for s
    by (simp add: reg' ne)
  show "TRANSFORMS reg' ?key = Some new"
    by (simp add: reg')
  show "get_transform f requested dimn kwargs reg' = get_transform f requested dimn kwargs reg"
    unfolding get_transform_def Let_def t1 t2 by (rule refl)
  assume "TRANSFORMS reg (lower ?key) = None"
  then show "get_transform f ?key dimn kwargs reg' = Inl (KeyError (lower ?key))"
    unfolding get_transform_def Let_def t1 t2 by simp
qed

theorem get_transform_lowercases_witness:
  "TRANSFORMS example_registries (lower ''Realnvp'') = None \<and>
   get_transform (\<lambda>c kw. kw) ''Realnvp'' 3 Map.empty example_registries = Inl (KeyError ''realnvp'') \<and>
   TRANSFORMS example_registries (lower ''AFFINE_DIAG'') = Some (example_cls ''AffineTransform'') \<and>
   TRANSFORMS_INITS example_registries (lower ''AFFINE_DIAG'') = Some example_inits \<and>
   get_transform (\<lambda>c kw. kw) ''AFFINE_DIAG'' 3 Map.empty example_registries = Inr (''AffineTransform'', [3]) \<and>
   list_ex isupper_char ''Realnvp'' \<and>
   (register_transform (example_cls ''RealNVP'') (Some ''Realnvp'') example_inits example_registries
      = Inr (example_registries\<lparr>TRANSFORMS := (TRANSFORMS example_registries)(''Realnvp'' \<mapsto> example_cls ''RealNVP''),
               TRANSFORMS_INITS := (TRANSFORMS_INITS example_registries)(''Realnvp'' \<mapsto> example_inits)\<rparr>)) \<and>
   get_transform (\<lambda>c kw. kw) ''Realnvp'' 3 Map.empty
      (example_registries\<lparr>TRANSFORMS := (TRANSFORMS example_registries)(''Realnvp'' \<mapsto> example_cls ''RealNVP''),
               TRANSFORMS_INITS := (TRANSFORMS_INITS example_registries)(''Realnvp'' \<mapsto> example_inits)\<rparr>)
      = Inl (KeyError ''realnvp'')"
  using get_transform_lowercases [where reg = example_registries and requested = "''Realnvp''"
          and f = "\<lambda>c kw. kw" and dimn = 3 and kwargs = Map.empty and name = "Some ''Realnvp''"
          and new = "example_cls ''RealNVP''" and inits = example_inits
          and reg' = "example_registries\<lparr>TRANSFORMS := (TRANSFORMS example_registries)(''Realnvp'' \<mapsto> example_cls ''RealNVP''),
               TRANSFORMS_INITS := (TRANSFORMS_INITS example_registries)(''Realnvp'' \<mapsto> example_inits)\<rparr>"]
        get_transform_lowercases [where reg = example_registries and requested = "''AFFINE_DIAG''"
          and f = "\<lambda>c kw. kw" and dimn = 3 and kwargs = Map.empty
          and cls = "example_cls ''AffineTransform''" and ini = example_inits]
  by (simp add: example_registries_def example_cls_def example_inits_def register_transform_def
        Let_def lower_eval)

text \<open>
  C9 as stated fails where it has every lookup of such a name raise \<^verbatim>\<open>KeyError\<close>: with
  \<^verbatim>\<open>affine_diag\<close> registered, a transform registered as \<^verbatim>\<open>Affine_Diag\<close> is looked up without
  an exception, and the lookup returns the transform registered as \<^verbatim>\<open>affine_diag\<close>.
\<close>

theorem get_transform_uppercase_counterexample:
  "list_ex isupper_char ''Affine_Diag'' \<and>
   register_transform (example_cls ''Shadowed'') (Some ''Affine_Diag'') example_inits example_registries
     = Inr twin_registries \<and>
   get_transform (\<lambda>c kw. kw) ''Affine_Diag'' 3 Map.empty twin_registries = Inr (''AffineTransform'', [3])"
  by (simp add: twin_registries_def example_registries_def example_cls_def example_inits_def
        register_transform_def get_transform_def Let_def lower_eval)

section \<open>Properties of the atom sampler\<close>

lemma probs_entry:
  assumes "2 \<le> B" "i < B" "j < B"
  shows "probs_matrix B ! i ! j = Fin (if i = j then 0 else 1 / (of_nat B - 1))"
proof -
  have "(of_nat B :: rat) - 1 \<noteq> 0"
    using assms(1) by auto
  then show ?thesis
    using assms by (simp add: probs_matrix_def float_div_def)
qed

lemma probs_shape:
  "length (probs_matrix B) = B" "i < B \<Longrightarrow> length (probs_matrix B ! i) = B"
  by (simp_all add: probs_matrix_def)

lemma probs_nonzero:
  assumes "2 \<le> B" "i < B" "j < B"
  shows "nonzero (probs_matrix B ! i ! j) \<longleftrightarrow> j \<noteq> i"
  using assms by (auto simp: probs_entry nonzero_def)

lemma probs_is_weight:
  assumes "2 \<le> B" "i < B"
  shows "list_all is_weight (probs_matrix B ! i)"
  unfolding list_all_length
  using assms by (auto simp: probs_shape probs_entry is_weight_def)

lemma length_filter_neq_upt:
  assumes "i < B"
  shows "length (filter (\<lambda>j. j \<noteq> i) [0..<B]) = B - 1"
proof -
  have "length (filter (\<lambda>j. j \<noteq> i) [0..<B]) = card ({j. j \<noteq> i} \<inter> set [0..<B])"
    by (simp add: distinct_length_filter)
  also have "{j. j \<noteq> i} \<inter> set [0..<B] = {0..<B} - {i}"
    by auto
  also have "card ({0..<B} - {i}) = B - 1"
    using assms by simp
  finally show ?thesis .
qed

lemma probs_nonzero_count:
  assumes "2 \<le> B" "i < B"
  shows "length (filter nonzero (probs_matrix B ! i)) = B - 1"
proof -
  have row: "probs_matrix B ! i = map (\<lambda>j. probs_matrix B ! i ! j) [0..<B]"
    using assms by (intro nth_equalityI) (simp_all add: probs_shape)
  have "length (filter nonzero (probs_matrix B ! i))
      = length (filter (\<lambda>j. nonzero (probs_matrix B ! i ! j)) [0..<B])"
    by (subst row) (simp add: filter_map o_def)
  also have "filter (\<lambda>j. nonzero (probs_matrix B ! i ! j)) [0..<B] = filter (\<lambda>j. j \<noteq> i) [0..<B]"
    using assms by (intro filter_cong) (simp_all add: probs_nonzero)
  finally show ?thesis
    using assms by (simp add: length_filter_neq_upt)
qed

lemma probs_drawable:
  assumes "2 \<le> B" "2 \<le> K" "K \<le> int B"
  shows "\<not> multinomial_raises (probs_matrix B) (K - 1)"
proof -
  have "probs_matrix B \<noteq> []"
    using assms(1) probs_shape(1) [of B] by auto
  moreover have "list_all is_weight row \<and> \<not> int (length (filter nonzero row)) < K - 1"
    if "row \<in> set (probs_matrix B)" for row
  proof -
    from that obtain i where i: "i < B" "row = probs_matrix B ! i"
      by (auto simp: in_set_conv_nth probs_shape)
    show ?thesis
      using assms i by (simp add: probs_is_weight probs_nonzero_count)
  qed
  ultimately show ?thesis
    using assms(2) by (auto simp: multinomial_raises_def list_ex_iff)
qed

lemma chop_concat_rows:
  assumes "0 < d" "list_all (\<lambda>row. length row = d) rows"
  shows "chop d (concat rows) = rows"
  using assms(2)
proof (induction rows)
  case Nil
  show ?case using assms(1) by (cases d) simp_all
next
  case (Cons r rows)
  then have r: "length r = d" and rest: "chop d (concat rows) = rows"
    by simp_all
  from assms(1) r obtain x r' m where xs: "r = x # r'" "d = Suc m" "length r' = m"
    by (cases r; cases d) auto
  show ?case
    using rest by (simp add: xs)
qed

lemma rows_without_entry:
  "list_all (\<lambda>row. length row = 0) xs \<Longrightarrow> xs = replicate (length xs) []"
  by (induction xs) simp_all

lemma nth_concat_blocks:
  assumes "list_all (\<lambda>b. length b = K) bs" "i < length bs" "k < K"
  shows "concat bs ! (i * K + k) = bs ! i ! k"
  using assms
proof (induction bs arbitrary: i)
  case Nil
  then show ?case by simp
next
  case (Cons b bs)
  show ?case
  proof (cases i)
    case 0
    with Cons.prems show ?thesis by (simp add: nth_append)
  next
    case (Suc i')
    with Cons.prems have "concat bs ! (i' * K + k) = bs ! i' ! k"
      by (intro Cons.IH) simp_all
    with Cons.prems Suc show ?thesis
      by (simp add: nth_append add.assoc)
  qed
qed

lemma length_concat_blocks:
  "list_all (\<lambda>b. length b = K) bs \<Longrightarrow> length (concat bs) = length bs * K"
  by (induction bs) simp_all

lemma sum_list_uniform:
  fixes w :: "rat list"
  assumes "S \<subseteq> {0..<length w}" "\<And>j. j < length w \<Longrightarrow> w ! j = (if j \<in> S then p else 0)"
  shows "sum_list w = p * of_nat (card S)"
proof -
  have "sum_list w = (\<Sum>j = 0..<length w. w ! j)"
    by (rule sum_list_sum_nth)
  also have "\<dots> = (\<Sum>j = 0..<length w. if j \<in> S then p else 0)"
    using assms(2) by (intro sum.cong) simp_all
  also have "\<dots> = (\<Sum>j\<in>{0..<length w} \<inter> S. p)"
    by (rule sum.inter_restrict [symmetric]) simp
  also have "{0..<length w} \<inter> S = S"
    using assms(1) by auto
  finally show ?thesis by simp
qed

lemma draw_prob_uniform:
  fixes w :: "rat list"
  assumes "0 < p" "S \<subseteq> {0..<length w}" "\<And>j. j < length w \<Longrightarrow> w ! j = (if j \<in> S then p else 0)"
    and "distinct cs" "set cs \<subseteq> S"
  shows "draw_prob w cs = 1 / of_nat (falling (card S) (length cs))"
  using assms(2-)
proof (induction cs arbitrary: w S)
  case Nil
  show ?case by simp
next
  case (Cons c cs)
  have fin: "finite S"
    using Cons.prems(1) by (rule finite_subset) simp
  have c: "c \<in> S" "c < length w"
    using Cons.prems(1,4) by auto
  then have card: "0 < card S"
    using fin by (auto simp: card_gt_0_iff)
  have total: "sum_list w = p * of_nat (card S)"
    using Cons.prems(1,2) by (rule sum_list_uniform)
  have wc: "w ! c = p"
    using Cons.prems(2) c by simp
  have rest: "draw_prob (w[c := 0]) cs = 1 / of_nat (falling (card (S - {c})) (length cs))"
  proof (rule Cons.IH)
    show "S - {c} \<subseteq> {0..<length (w[c := 0])}"
      using Cons.prems(1) by auto
    show "w[c := 0] ! j = (if j \<in> S - {c} then p else 0)" if "j < length (w[c := 0])" for j
      using that Cons.prems(2) by (cases "j = c") simp_all
    show "distinct cs" "set cs \<subseteq> S - {c}"
      using Cons.prems(3,4) by auto
  qed
  have "card (S - {c}) = card S - 1"
    using c fin by simp
  with rest total wc card assms(1) c show ?case
    by simp
qed

lemma probs_row_uniform:
  assumes "2 \<le> B" "i < B" "distinct cs" "\<And>c. c \<in> set cs \<Longrightarrow> c < B \<and> c \<noteq> i"
  shows "draw_prob (map weight_rat (probs_matrix B ! i)) cs = 1 / of_nat (falling (B - 1) (length cs))"
proof -
  have "draw_prob (map weight_rat (probs_matrix B ! i)) cs
      = 1 / of_nat (falling (card ({0..<B} - {i})) (length cs))"
  proof (rule draw_prob_uniform [where p = "1 / (of_nat B - 1)"])
    show "(0::rat) < 1 / (of_nat B - 1)"
      using assms(1) by simp
    show "{0..<B} - {i} \<subseteq> {0..<length (map weight_rat (probs_matrix B ! i))}"
      using assms(2) by (simp add: probs_shape Diff_subset)
    show "map weight_rat (probs_matrix B ! i) ! j
        = (if j \<in> {0..<B} - {i} then 1 / (of_nat B - 1) else 0)"
      if "j < length (map weight_rat (probs_matrix B ! i))" for j
      using that assms(1,2) by (auto simp: probs_shape probs_entry weight_rat_def)
    show "distinct cs" by fact
    show "set cs \<subseteq> {0..<B} - {i}"
      using assms(4) by auto
  qed
  also have "card ({0..<B} - {i}) = B - 1"
    using assms(2) by simp
  finally show ?thesis .
qed

lemma atom_blocks:
  fixes theta :: "'a list list"
  assumes B: "2 \<le> length theta" and K: "2 \<le> num_atoms" "num_atoms \<le> int (length theta)"
    and d: "list_all (\<lambda>row. length row = d) theta"
    and conf: "conforms multinomial (probs_matrix (length theta)) (num_atoms - 1)"
  shows "\<exists>choices atoms.
      multinomial (probs_matrix (length theta)) (num_atoms - 1) = Inr choices \<and>
      make_atomic_theta multinomial theta num_atoms = Inr atoms \<and>
      make_atomic_theta multinomial theta
        (fst (clamp_and_warn ''num_atoms'' num_atoms 2 (int (length theta)))) = Inr atoms \<and>
      classifier_logits multinomial net theta x num_atoms
        = (case cat_dim1 atoms (repeat_rows x num_atoms) of Inl e \<Rightarrow> Inl e | Inr theta_and_x \<Rightarrow> net theta_and_x) \<and>
      length atoms = length theta * nat num_atoms \<and>
      list_all (\<lambda>row. length row = d) atoms \<and>
      (\<forall>i<length theta.
          atoms ! (i * nat num_atoms) = theta ! i \<and>
          length (choices ! i) = nat num_atoms - 1 \<and> distinct (choices ! i) \<and>
          (\<forall>k<nat num_atoms - 1.
              choices ! i ! k < length theta \<and> choices ! i ! k \<noteq> i \<and>
              atoms ! (i * nat num_atoms + 1 + k) = theta ! (choices ! i ! k)) \<and>
          (\<forall>cs. length cs = nat num_atoms - 1 \<and> distinct cs \<and> list_all (\<lambda>c. c < length theta \<and> c \<noteq> i) cs \<longrightarrow>
              draw_prob (map weight_rat (probs_matrix (length theta) ! i)) cs
                = 1 / of_nat (falling (length theta - 1) (nat num_atoms - 1))))"
proof -
  define B where "B = length theta"
  define n where "n = nat num_atoms"
  have n: "2 \<le> n" "int n = num_atoms" "n \<le> B"
    using K by (simp_all add: n_def B_def)
  have B2: "2 \<le> B" using B by (simp add: B_def)
  have "\<not> multinomial_raises (probs_matrix B) (num_atoms - 1)"
    using B2 K by (intro probs_drawable) (simp_all add: B_def)
  with conf obtain choices where
    m: "multinomial (probs_matrix B) (num_atoms - 1) = Inr choices" and
    ret: "multinomial_returns (probs_matrix B) (num_atoms - 1) choices"
    by (cases "multinomial (probs_matrix B) (num_atoms - 1)") (auto simp: conforms_def B_def)
  have len: "length choices = B"
    using ret by (simp add: multinomial_returns_def probs_shape)
  have row: "length (choices ! i) = n - 1 \<and> distinct (choices ! i) \<and>
             (\<forall>c\<in>set (choices ! i). c < B \<and> c \<noteq> i)" if "i < B" for i
  proof -
    from ret have "list_all2 (\<lambda>row cs. int (length cs) = num_atoms - 1 \<and> distinct cs \<and>
                   list_all (\<lambda>j. j < length row \<and> nonzero (row ! j)) cs) (probs_matrix B) choices"
      unfolding multinomial_returns_def by (rule conjunct2)
    from list_all2_nthD [OF this, of i] that
    have r: "int (length (choices ! i)) = num_atoms - 1" "distinct (choices ! i)"
        "list_all (\<lambda>j. j < length (probs_matrix B ! i) \<and> nonzero (probs_matrix B ! i ! j)) (choices ! i)"
      by (simp_all only: probs_shape(1))
    from r(1) n(2) have "length (choices ! i) = n - 1" by linarith
    moreover have "c < B \<and> c \<noteq> i" if "c \<in> set (choices ! i)" for c
    proof -
      from r(3) that have c: "c < length (probs_matrix B ! i)" "nonzero (probs_matrix B ! i ! c)"
        by (simp_all add: list_all_iff)
      with \<open>i < B\<close> have "c < B" by (simp add: probs_shape)
      with c(2) \<open>i < B\<close> B2 show ?thesis by (simp add: probs_nonzero)
    qed
    ultimately show ?thesis using r(2) by blast
  qed
  define contrasting where "contrasting = map (map (\<lambda>j. theta ! j)) choices"
  have g: "gather theta choices = Inr contrasting"
  proof -
    have "list_all (list_all (\<lambda>j. j < length theta)) choices"
      unfolding list_all_length [of _ choices]
      using row by (auto simp: len list_all_iff B_def)
    then show ?thesis by (simp add: gather_def contrasting_def)
  qed
  define stacked where "stacked = map2 (@) (map (\<lambda>t. [t]) theta) contrasting"
  have c: "cat_dim1 (map (\<lambda>t. [t]) theta) contrasting = Inr stacked"
    by (simp add: cat_dim1_def contrasting_def len B_def stacked_def)
  have slen: "length stacked = B"
    by (simp add: stacked_def contrasting_def len B_def)
  have snth: "stacked ! i = theta ! i # map (\<lambda>j. theta ! j) (choices ! i)" if "i < B" for i
    using that by (simp add: stacked_def contrasting_def len B_def)
  have blocks: "list_all (\<lambda>b. length b = n) stacked"
    unfolding list_all_length using row n(1) by (auto simp: slen snth)
  define atoms where "atoms = concat stacked"
  have alen: "length atoms = B * n"
    using blocks by (simp add: atoms_def length_concat_blocks slen)
  have theta_d: "length (theta ! j) = d" if "j < B" for j
    using d that by (simp add: list_all_length B_def)
  have arows: "list_all (\<lambda>row. length row = d) atoms"
  proof -
    have "length r = d" if "r \<in> set b" "b \<in> set stacked" for r b
    proof -
      from that(2) obtain i where i: "i < B" "b = stacked ! i"
        by (auto simp: in_set_conv_nth slen)
      with that(1) row [OF i(1)] theta_d show ?thesis
        by (auto simp: snth)
    qed
    then show ?thesis by (auto simp: atoms_def list_all_iff)
  qed
  have r: "reshape_rows (int B * num_atoms) stacked = Inr atoms"
  proof -
    have numel: "length (concat atoms) = B * n * d"
      using arows by (simp add: length_concat_blocks alen)
    have pos: "0 < B * n" using B2 n(1) by simp
    have rows: "int B * num_atoms = int (B * n)" using n(2) by simp
    have flat: "concat (concat stacked) = concat atoms"
      by (simp add: atoms_def)
    have "int (B * n * d) mod int (B * n) = 0"
      by (simp flip: of_nat_mult of_nat_mod)
    then have ok: "\<not> (int B * num_atoms \<le> 0 \<or>
        int (length (concat atoms)) mod (int B * num_atoms) \<noteq> 0)"
      unfolding rows numel using pos by (simp del: of_nat_mult)
    have nr: "nat (int B * num_atoms) = B * n"
      unfolding rows by (rule nat_int)
    show ?thesis
    proof (cases "d = 0")
      case True
      with arows have "atoms = replicate (length atoms) []"
        by (intro rows_without_entry) simp
      then have "atoms = replicate (B * n) []"
        by (simp only: alen)
      moreover have "length (concat atoms) = 0"
        using numel True by simp
      ultimately show ?thesis
        unfolding reshape_rows_def Let_def flat if_not_P [OF ok] nr by simp
    next
      case False
      then have dpos: "0 < d" by simp
      then have ne: "length (concat atoms) \<noteq> 0"
        using numel pos by simp
      have dv: "length (concat atoms) div nat (int B * num_atoms) = d"
        unfolding nr numel using pos by simp
      show ?thesis
        unfolding reshape_rows_def Let_def flat if_not_P [OF ok] if_not_P [OF ne] dv
        by (simp only: chop_concat_rows [OF dpos arows])
    qed
  qed
  have mk: "make_atomic_theta multinomial theta num_atoms = Inr atoms"
    using m g c r by (simp add: make_atomic_theta_def Let_def B_def)
  have clamp: "fst (clamp_and_warn ''num_atoms'' num_atoms 2 (int (length theta))) = num_atoms"
    using K by (simp add: clamp_and_warn_def Let_def)
  have logits: "classifier_logits multinomial net theta x num_atoms
        = (case cat_dim1 atoms (repeat_rows x num_atoms) of Inl e \<Rightarrow> Inl e | Inr theta_and_x \<Rightarrow> net theta_and_x)"
    using mk by (simp add: classifier_logits_def Let_def)
  have at: "atoms ! (i * n + k) = stacked ! i ! k" if "i < B" "k < n" for i k
    unfolding atoms_def using blocks that by (intro nth_concat_blocks) (simp_all add: slen)
  have per_row: "atoms ! (i * n) = theta ! i \<and>
          length (choices ! i) = n - 1 \<and> distinct (choices ! i) \<and>
          (\<forall>k<n - 1.
              choices ! i ! k < B \<and> choices ! i ! k \<noteq> i \<and>
              atoms ! (i * n + 1 + k) = theta ! (choices ! i ! k)) \<and>
          (\<forall>cs. length cs = n - 1 \<and> distinct cs \<and> list_all (\<lambda>c. c < B \<and> c \<noteq> i) cs \<longrightarrow>
              draw_prob (map weight_rat (probs_matrix B ! i)) cs
                = 1 / of_nat (falling (B - 1) (n - 1)))" if i: "i < B" for i
  proof (intro conjI allI impI)
    show "atoms ! (i * n) = theta ! i"
      using at [OF i, of 0] n(1) i by (simp add: snth)
    show "length (choices ! i) = n - 1" "distinct (choices ! i)"
      using row [OF i] by simp_all
  next
    fix k assume k: "k < n - 1"
    then have "choices ! i ! k \<in> set (choices ! i)"
      using row [OF i] by simp
    then show "choices ! i ! k < B" "choices ! i ! k \<noteq> i"
      using row [OF i] by blast+
    have "atoms ! (i * n + (1 + k)) = stacked ! i ! (1 + k)"
      using k by (intro at i) simp
    then show "atoms ! (i * n + 1 + k) = theta ! (choices ! i ! k)"
      using k row [OF i] i by (simp add: snth add.assoc)
  next
    fix cs assume cs: "length cs = n - 1 \<and> distinct cs \<and> list_all (\<lambda>c. c < B \<and> c \<noteq> i) cs"
    then show "draw_prob (map weight_rat (probs_matrix B ! i)) cs
                = 1 / of_nat (falling (B - 1) (n - 1))"
      using probs_row_uniform [OF B2 i, of cs] by (simp add: list_all_iff)
  qed
  show ?thesis
    using m mk clamp logits alen arows per_row
    unfolding B_def [symmetric] n_def [symmetric]
    by (intro exI [of _ choices] exI [of _ atoms]) (simp add: B_def [symmetric])
qed

text \<open>
  C1. For \<open>theta\<close> of shape \<open>(B, d)\<close> with \<open>B \<ge> 2\<close>, an atom count \<open>K\<close> with
  \<open>2 \<le> K \<le> B\<close> and a sampler that conforms at this call, the sampler returns and the
  atom construction yields \<open>atomic_theta\<close> with \<open>B * K\<close> rows of length \<open>d\<close>. It is the same
  value in \<^verbatim>\<open>_log_prob_proposal_posterior\<close> (whose clamp leaves \<open>K\<close> as it is) and in
  \<^verbatim>\<open>_classifier_logits\<close>. Block \<open>i\<close> begins with \<open>theta[i]\<close> and continues with the rows
  \<open>theta[j]\<close> of the \<open>K - 1\<close> indices \<open>j\<close> drawn for row \<open>i\<close>, which are pairwise different,
  below \<open>B\<close> and different from \<open>i\<close>. The weights make the draw uniform: every sequence of
  \<open>K - 1\<close> different indices other than \<open>i\<close> has the same probability
  \<open>1 / ((B - 1) (B - 2) \<dots> (B - K + 1))\<close>.
\<close>

theorem atoms_blockwise:
  fixes theta :: "'a list list"
  assumes B: "2 \<le> length theta" and K: "2 \<le> num_atoms" "num_atoms \<le> int (length theta)"
    and d: "list_all (\<lambda>row. length row = d) theta"
    and conf: "conforms multinomial (probs_matrix (length theta)) (num_atoms - 1)"
  shows "\<exists>choices atoms.
      multinomial (probs_matrix (length theta)) (num_atoms - 1) = Inr choices \<and>
      make_atomic_theta multinomial theta num_atoms = Inr atoms \<and>
      make_atomic_theta multinomial theta
        (fst (clamp_and_warn ''num_atoms'' num_atoms 2 (int (length theta)))) = Inr atoms \<and>
      classifier_logits multinomial net theta x num_atoms
        = (case cat_dim1 atoms (repeat_rows x num_atoms) of Inl e \<Rightarrow> Inl e | Inr theta_and_x \<Rightarrow> net theta_and_x) \<and>
      length atoms = length theta * nat num_atoms \<and>
      list_all (\<lambda>row. length row = d) atoms \<and>
      (\<forall>i<length theta.
          atoms ! (i * nat num_atoms) = theta ! i \<and>
          length (choices ! i) = nat num_atoms - 1 \<and> distinct (choices ! i) \<and>
          (\<forall>k<nat num_atoms - 1.
              choices ! i ! k < length theta \<and> choices ! i ! k \<noteq> i \<and>
              atoms ! (i * nat num_atoms + 1 + k) = theta ! (choices ! i ! k)) \<and>
          (\<forall>cs. length cs = nat num_atoms - 1 \<and> distinct cs \<and> list_all (\<lambda>c. c < length theta \<and> c \<noteq> i) cs \<longrightarrow>
              draw_prob (map weight_rat (probs_matrix (length theta) ! i)) cs
                = 1 / of_nat (falling (length theta - 1) (nat num_atoms - 1))))"
  using assms by (rule atom_blocks)

lemma upt3: "[0..<3] = [0, 1, 2]"
  by (simp add: upt_rec)

lemma first_choice_3_1:
  "first_choice_multinomial (probs_matrix 3) 1 = Inr [[1], [0], [0]]"
  by (simp add: first_choice_multinomial_def probs_matrix_def float_div_def multinomial_raises_def
      is_weight_def nonzero_def upt3)

lemma conforms_3_1: "conforms first_choice_multinomial (probs_matrix 3) (2 - 1)"
  by (simp add: conforms_def first_choice_3_1)
     (simp add: probs_matrix_def float_div_def multinomial_raises_def multinomial_returns_def
      is_weight_def nonzero_def upt3)

theorem atoms_blockwise_witness:
  "2 \<le> length [[1], [2], [3::int]] \<and> (2::int) \<le> 2 \<and> (2::int) \<le> int (length [[1], [2], [3::int]]) \<and>
   list_all (\<lambda>row. length row = 1) [[1], [2], [3::int]] \<and>
   conforms first_choice_multinomial (probs_matrix (length [[1], [2], [3::int]])) (2 - 1) \<and>
   first_choice_multinomial (probs_matrix 3) 1 = Inr [[1], [0], [0]] \<and>
   make_atomic_theta first_choice_multinomial [[1], [2], [3::int]] 2 = Inr [[1], [2], [2], [1], [3], [1]] \<and>
   draw_prob (map weight_rat (probs_matrix 3 ! 0)) [2] = 1 / 2"
proof -
  have h: "2 \<le> length [[1], [2], [3::int]]" "(2::int) \<le> 2" "(2::int) \<le> int (length [[1], [2], [3::int]])"
     "list_all (\<lambda>row. length row = 1) [[1], [2], [3::int]]"
     "conforms first_choice_multinomial (probs_matrix (length [[1], [2], [3::int]])) (2 - 1)"
    using conforms_3_1 by (simp_all add: numeral_3_eq_3)
  from atoms_blockwise [OF h, of "\<lambda>t. Inr t" "[]"] obtain choices atoms where
    r: "first_choice_multinomial (probs_matrix (length [[1], [2], [3::int]])) (2 - 1) = Inr choices"
       "make_atomic_theta first_choice_multinomial [[1], [2], [3::int]] 2 = Inr atoms"
       "\<forall>i<length [[1], [2], [3::int]].
          atoms ! (i * nat 2) = [[1], [2], [3::int]] ! i \<and>
          length (choices ! i) = nat 2 - 1 \<and> distinct (choices ! i) \<and>
          (\<forall>k<nat 2 - 1.
              choices ! i ! k < length [[1], [2], [3::int]] \<and> choices ! i ! k \<noteq> i \<and>
              atoms ! (i * nat 2 + 1 + k) = [[1], [2], [3::int]] ! (choices ! i ! k)) \<and>
          (\<forall>cs. length cs = nat 2 - 1 \<and> distinct cs \<and> list_all (\<lambda>c. c < length [[1], [2], [3::int]] \<and> c \<noteq> i) cs \<longrightarrow>
              draw_prob (map weight_rat (probs_matrix (length [[1], [2], [3::int]]) ! i)) cs
                = 1 / of_nat (falling (length [[1], [2], [3::int]] - 1) (nat 2 - 1)))"
    by blast
  have len: "length [[1], [2], [3::int]] = 3" by simp
  have i0: "(0::nat) < 3" by simp
  from r(3) [unfolded len, rule_format, OF i0]
  have "draw_prob (map weight_rat (probs_matrix 3 ! 0)) [2] = 1 / of_nat (falling (3 - 1) (nat 2 - 1))"
    by (elim conjE) (erule allE [of _ "[2]"], simp)
  then have "draw_prob (map weight_rat (probs_matrix 3 ! 0)) [2] = 1 / 2"
    by simp
  moreover have "make_atomic_theta first_choice_multinomial [[1], [2], [3::int]] 2 = Inr [[1], [2], [2], [1], [3], [1]]"
    unfolding make_atomic_theta_def Let_def len
    by (simp add: first_choice_3_1 gather_def cat_dim1_def reshape_rows_def Let_def)
  ultimately show ?thesis
    using h first_choice_3_1 by blast
qed

section \<open>Properties of build_flow\<close>

lemma flows_loop_layers:
  assumes "get d = Inr t"
  shows "\<exists>fl. flows_loop get permute batch_norm num_flows d ixs acc = Inr (acc @ fl) \<and>
              list_all (layer_ok t d) fl \<and> length (filter (\<lambda>u. u = Inner t) fl) = length ixs"
proof (induction ixs arbitrary: acc)
  case Nil
  show ?case by simp
next
  case (Cons i rest)
  let ?acc = "acc @ [Inner t]
               @ (if permute \<and> int i < num_flows - 1 then [Permute d] else [])
               @ (if batch_norm \<and> int i < num_flows - 1 then [BatchNorm d] else [])"
  from Cons.IH [of ?acc] obtain fl where
    fl: "flows_loop get permute batch_norm num_flows d rest ?acc = Inr (?acc @ fl)"
        "list_all (layer_ok t d) fl" "length (filter (\<lambda>u. u = Inner t) fl) = length rest"
    by blast
  let ?fl = "[Inner t]
               @ (if permute \<and> int i < num_flows - 1 then [Permute d] else [])
               @ (if batch_norm \<and> int i < num_flows - 1 then [BatchNorm d] else []) @ fl"
  have "flows_loop get permute batch_norm num_flows d (i # rest) acc = Inr (acc @ ?fl)"
    using assms fl(1) by simp
  moreover have "list_all (layer_ok t d) ?fl"
    using fl(2) by (simp add: layer_ok_def)
  moreover have "length (filter (\<lambda>u. u = Inner t) ?fl) = length (i # rest)"
    using fl(3) by simp
  ultimately show ?case by blast
qed

text \<open>
  C4, as the code has it. The probe's result has some length \<open>n + m\<close>; the code subtracts
  the difference \<open>m\<close> from the nominal dimension \<open>n\<close>. So a link transform whose result on the
  zero vector is \<open>m\<close> entries longer than the nominal dimension gives the working dimension
  \<open>n - m\<close>: the default base distribution is a standard normal of that shape, there are
  \<open>num_flows\<close> transforms from the registry, all built for that dimension, and the
  permutations and batch normalisations between them have that dimension. A result that is
  shorter is the case of a negative \<open>m\<close>, and makes the working dimension larger.
\<close>

theorem build_flow_working_dimension:
  assumes "link_flow [n] = Inr out" and "tensor_len out = Inr (n + m)"
    and "0 \<le> n" and "0 \<le> n - m"
    and "get_transform f transform (n - m) kwargs reg = Inr t"
  shows "\<exists>fl. build_flow f reg [n] link_flow num_flows transform permute batch_norm base_dist kwargs
            = Inr \<lparr>td_base_dist = (case base_dist of None \<Rightarrow> StandardNormal [n - m] | Some d \<Rightarrow> Given d),
                   td_transforms = fl @ [Link]\<rparr> \<and>
          list_all (layer_ok t (n - m)) fl \<and>
          length (filter (\<lambda>u. u = Inner t) fl) = nat num_flows"
proof -
  from flows_loop_layers [of "\<lambda>d. get_transform f transform d kwargs reg" "n - m" t
      permute batch_norm num_flows "[0..<nat num_flows]" "[]"] assms(5)
  obtain fl where fl:
    "flows_loop (\<lambda>d. get_transform f transform d kwargs reg) permute batch_norm num_flows (n - m)
       [0..<nat num_flows] [] = Inr fl"
    "list_all (layer_ok t (n - m)) fl" "length (filter (\<lambda>u. u = Inner t) fl) = nat num_flows"
    by auto
  have "build_flow f reg [n] link_flow num_flows transform permute batch_norm base_dist kwargs
            = Inr \<lparr>td_base_dist = (case base_dist of None \<Rightarrow> StandardNormal [n - m] | Some d \<Rightarrow> Given d),
                   td_transforms = fl @ [Link]\<rparr>"
    using assms(1-4) fl(1)
    by (simp add: build_flow_def torch_zeros_def Let_def split: option.splits)
  with fl(2,3) show ?thesis by blast
qed

theorem build_flow_working_dimension_witness:
  "(\<lambda>s. Inr [6]) [5::int] = (Inr [6] :: error + shape) \<and> tensor_len [6] = Inr (5 + 1) \<and> (0::int) \<le> 5 \<and> (0::int) \<le> 5 - 1 \<and>
   get_transform (\<lambda>c kw. kw) ''affine_diag'' (5 - 1) Map.empty example_registries = Inr (''AffineTransform'', [4]) \<and>
   (\<exists>fl. build_flow (\<lambda>c kw. kw) example_registries [5] (\<lambda>s. Inr [6]) 2 ''affine_diag'' True False (None :: unit option) Map.empty
            = Inr \<lparr>td_base_dist = StandardNormal [4], td_transforms = fl @ [Link]\<rparr> \<and>
          list_all (layer_ok (''AffineTransform'', [4]) 4) fl \<and>
          length (filter (\<lambda>u. u = Inner (''AffineTransform'', [4])) fl) = 2)"
proof -
  have g: "get_transform (\<lambda>c kw. kw) ''affine_diag'' (5 - 1) Map.empty example_registries = Inr (''AffineTransform'', [4])"
    by (simp add: get_transform_def example_registries_def example_cls_def example_inits_def lower_eval)
  have l: "tensor_len [6] = Inr (5 + 1)" by (simp add: tensor_len_def)
  show ?thesis
    using build_flow_working_dimension [where link_flow = "\<lambda>s. Inr [6]" and n = 5 and m = 1 and out = "[6]"
        and f = "\<lambda>c kw. kw" and transform = "''affine_diag''" and kwargs = Map.empty and reg = example_registries
        and t = "(''AffineTransform'', [4])" and num_flows = 2 and permute = True and batch_norm = False
        and base_dist = "None :: unit option", OF refl l _ _ g] g l
    by simp
qed

text \<open>
  C4 as stated fails: a link transform that maps the zero vector of shape (5,) to a vector
  of length 4, reducing the dimension by 1, gives the working dimension 6, not 4.
\<close>

theorem build_flow_shorter_probe_counterexample:
  "build_flow (\<lambda>c kw. kw) example_registries [5] (\<lambda>s. Inr [4]) 1 ''affine_diag'' True False (None :: unit option) Map.empty
     = Inr \<lparr>td_base_dist = StandardNormal [6], td_transforms = [Inner (''AffineTransform'', [6]), Link]\<rparr>"
  by (simp add: build_flow_def torch_zeros_def tensor_len_def Let_def
        get_transform_def example_registries_def example_cls_def example_inits_def lower_eval)

section \<open>Properties of RatioEstimator._train\<close>

text \<open>The exponent that \<open>round_double\<close> works with is the binary exponent of its argument.\<close>

lemma binary_exponent_bounds:
  assumes "0 < q"
  shows "pow2 (binary_exponent q) \<le> q \<and> q < pow2 (binary_exponent q + 1)"
proof (cases "1 \<le> q")
  case True
  define m where "m = \<lfloor>q\<rfloor>"
  have m: "0 < m" using True by (simp add: m_def)
  from bitlen_bounds [OF m] have b: "2 ^ nat (bitlen m - 1) \<le> m" "m < 2 ^ nat (bitlen m)"
    by simp_all
  have b1: "1 \<le> bitlen m"
    using m by (simp add: bitlen_alt_def)
  have "(2::rat) ^ nat (bitlen m - 1) \<le> of_int m"
    using b(1) by (metis of_int_le_iff of_int_numeral of_int_power)
  also have "\<dots> \<le> q" by (simp add: m_def)
  finally have lo: "(2::rat) ^ nat (bitlen m - 1) \<le> q" .
  have "m + 1 \<le> 2 ^ nat (bitlen m)" using b(2) by simp
  then have "(of_int (m + 1) :: rat) \<le> 2 ^ nat (bitlen m)"
    by (metis of_int_le_iff of_int_numeral of_int_power)
  moreover have "q < of_int (m + 1)" unfolding m_def by linarith
  ultimately have hi: "q < 2 ^ nat (bitlen m)" by simp
  show ?thesis
    using True lo hi b1 by (simp add: binary_exponent_def pow2_def m_def [symmetric])
next
  case False
  define r where "r = 1 / q"
  have r: "1 < r" using False assms by (simp add: r_def)
  define c where "c = \<lceil>r\<rceil> - 1"
  have c: "0 < c" using r by (simp add: c_def)
  from bitlen_bounds [OF c] have b: "2 ^ nat (bitlen c - 1) \<le> c" "c < 2 ^ nat (bitlen c)"
    by simp_all
  have b1: "1 \<le> bitlen c"
    using c by (simp add: bitlen_alt_def)
  have "(2::rat) ^ nat (bitlen c - 1) \<le> of_int c"
    using b(1) by (metis of_int_le_iff of_int_numeral of_int_power)
  also have "of_int c < r" by (simp add: c_def) linarith
  finally have lo: "(2::rat) ^ nat (bitlen c - 1) < r" .
  have "\<lceil>r\<rceil> \<le> 2 ^ nat (bitlen c)" using b(2) by (simp add: c_def)
  then have "(of_int \<lceil>r\<rceil> :: rat) \<le> 2 ^ nat (bitlen c)"
    by (metis of_int_le_iff of_int_numeral of_int_power)
  then have hi: "r \<le> 2 ^ nat (bitlen c)"
    using le_of_int_ceiling [of r] by linarith
  have q: "q = 1 / r" using assms by (simp add: r_def)
  have 1: "1 / 2 ^ nat (bitlen c) \<le> q"
    unfolding q using hi r by (simp add: field_simps)
  have 2: "q < 1 / 2 ^ nat (bitlen c - 1)"
    unfolding q using lo r by (simp add: field_simps)
  have e: "binary_exponent q = - bitlen c"
    using False by (simp add: binary_exponent_def c_def r_def)
  show ?thesis
  proof (cases "bitlen c = 1")
    case True
    with 1 2 show ?thesis unfolding e by (simp add: pow2_def)
  next
    case F: False
    with b1 have "1 < bitlen c" by simp
    moreover from this have "nat (- (1 - bitlen c)) = nat (bitlen c - 1)" by simp
    ultimately show ?thesis
      using 1 2 unfolding e by (simp add: pow2_def)
  qed
qed

lemma concat_chop: "0 < n \<Longrightarrow> concat (chop n xs) = xs"
  by (induction n xs rule: chop.induct) simp_all

lemma chop_piece: "b \<in> set (chop n xs) \<Longrightarrow> b \<noteq> [] \<and> length b \<le> n"
  by (induction n xs rule: chop.induct) auto

lemma chop_full_pieces:
  "0 < n \<Longrightarrow> length (filter (\<lambda>b. length b = n) (chop n xs)) = length xs div n"
proof (induction n xs rule: chop.induct)
  case (3 n x xs)
  show ?case
  proof (cases "n \<le> length xs")
    case True
    have "Suc (length xs) div Suc n = Suc ((length xs - n) div Suc n)"
      using True by (simp add: le_div_geq)
    with 3 True show ?thesis by (simp add: min_def)
  next
    case False
    then show ?thesis by (simp add: min_def)
  qed
qed simp_all

lemma train_batches_full:
  assumes "dl_drop_last dl" "0 < dl_batch_size dl"
  shows "list_all (\<lambda>b. int (length b) = dl_batch_size dl) (loader_batches dl perm dataset)"
    and "length (loader_batches dl perm dataset) = length perm div nat (dl_batch_size dl)"
proof -
  show "list_all (\<lambda>b. int (length b) = dl_batch_size dl) (loader_batches dl perm dataset)"
    using assms by (simp add: loader_batches_def Let_def list_all_iff)
  have eq: "(\<lambda>b. int (length b) = dl_batch_size dl) = (\<lambda>b. length b = nat (dl_batch_size dl))"
    using assms(2) by (intro ext) linarith
  show "length (loader_batches dl perm dataset) = length perm div nat (dl_batch_size dl)"
    using assms chop_full_pieces [of "nat (dl_batch_size dl)" "map (\<lambda>i. dl_indices dl ! i) perm"]
    by (simp add: loader_batches_def Let_def eq)
qed

lemma val_batches_all:
  assumes "\<not> dl_drop_last dl" "0 < dl_batch_size dl"
  shows "list_all (\<lambda>b. b \<noteq> [] \<and> int (length b) \<le> dl_batch_size dl) (loader_batches dl perm dataset)"
    and "concat (loader_batches dl perm dataset) = map (\<lambda>i. dataset ! (dl_indices dl ! i)) perm"
proof -
  show "list_all (\<lambda>b. b \<noteq> [] \<and> int (length b) \<le> dl_batch_size dl) (loader_batches dl perm dataset)"
    using assms chop_piece [of _ "nat (dl_batch_size dl)" "map (\<lambda>i. dl_indices dl ! i) perm"]
    by (fastforce simp: loader_batches_def Let_def list_all_iff)
  show "concat (loader_batches dl perm dataset) = map (\<lambda>i. dataset ! (dl_indices dl ! i)) perm"
    using assms concat_chop [of "nat (dl_batch_size dl)" "map (\<lambda>i. dl_indices dl ! i) perm"]
    by (simp add: loader_batches_def Let_def comp_def flip: map_concat)
qed

lemma train_loaders:
  assumes bank: "theta_bank self \<noteq> []" "x_bank self \<noteq> []"
      "length (concat (theta_bank self)) = length (concat (x_bank self))"
    and n: "n = sum_list (map length (theta_bank self))"
    and k: "float_int fl (float_mul fl (float_sub fl (float_of_int fl 1) validation_fraction)
                            (float_of_int fl (int n))) = Inr k"
    and V: "V = int n - k"
    and pos: "0 < min batch_size V"
  shows "\<exists>ts. train fl randperm self num_atoms batch_size validation_fraction
               = (snd (clamp_and_warn ''num_atoms'' num_atoms 2 (min batch_size V)), Inr ts) \<and>
          ts_num_validation_examples ts = V \<and>
          dl_batch_size (ts_train_loader ts) = min batch_size V \<and>
          dl_batch_size (ts_val_loader ts) = min batch_size V \<and>
          dl_drop_last (ts_train_loader ts) \<and> \<not> dl_drop_last (ts_val_loader ts) \<and>
          dl_indices (ts_train_loader ts) = slice_to (randperm n) k \<and>
          dl_indices (ts_val_loader ts) = slice_from (randperm n) k \<and>
          (0 \<le> k \<and> k \<le> int n \<and> length (randperm n) = n \<longrightarrow>
             dl_indices (ts_train_loader ts) @ dl_indices (ts_val_loader ts) = randperm n \<and>
             int (length (dl_indices (ts_train_loader ts))) = k \<and>
             int (length (dl_indices (ts_val_loader ts))) = V) \<and>
          list_all (\<lambda>b. int (length b) = min batch_size V)
            (loader_batches (ts_train_loader ts) perm_t (ts_dataset ts)) \<and>
          length (loader_batches (ts_train_loader ts) perm_t (ts_dataset ts))
            = length perm_t div nat (min batch_size V) \<and>
          list_all (\<lambda>b. b \<noteq> [] \<and> int (length b) \<le> min batch_size V)
            (loader_batches (ts_val_loader ts) perm_v (ts_dataset ts)) \<and>
          concat (loader_batches (ts_val_loader ts) perm_v (ts_dataset ts))
            = map (\<lambda>i. ts_dataset ts ! (dl_indices (ts_val_loader ts) ! i)) perm_v"
proof -
  define self' where "self' = (if retrain_from_scratch_each_round self
                   then self\<lparr>posterior := deepcopy (posterior self)\<rparr> else self)"
  define ts where "ts = \<lparr>ts_self = self', ts_dataset = zip (concat (theta_bank self)) (concat (x_bank self)),
      ts_train_loader = \<lparr>dl_batch_size = min batch_size V, dl_drop_last = True,
                          dl_indices = slice_to (randperm n) k\<rparr>,
      ts_val_loader = \<lparr>dl_batch_size = min batch_size V, dl_drop_last = False,
                        dl_indices = slice_from (randperm n) k\<rparr>,
      ts_num_validation_examples = V, ts_num_atoms = num_atoms\<rparr>"
  have t: "train fl randperm self num_atoms batch_size validation_fraction
               = (snd (clamp_and_warn ''num_atoms'' num_atoms 2 (min batch_size V)), Inr ts)"
  proof -
    have pos': "\<not> min batch_size (int n - k) \<le> 0"
      using pos unfolding V by linarith
    show ?thesis
      using bank pos'
      by (simp add: train_def Let_def n [symmetric] k V TensorDataset_def
          DataLoader_def ts_def self'_def split: prod.splits)
  qed
  have tl: "dl_drop_last (ts_train_loader ts)" "0 < dl_batch_size (ts_train_loader ts)"
       "dl_batch_size (ts_train_loader ts) = min batch_size V"
    using pos by (simp_all add: ts_def)
  have vl: "\<not> dl_drop_last (ts_val_loader ts)" "0 < dl_batch_size (ts_val_loader ts)"
       "dl_batch_size (ts_val_loader ts) = min batch_size V"
    using pos by (simp_all add: ts_def)
  have ix: "dl_indices (ts_train_loader ts) = slice_to (randperm n) k"
       "dl_indices (ts_val_loader ts) = slice_from (randperm n) k"
       "ts_num_validation_examples ts = V"
    by (simp_all add: ts_def)
  have parts: "slice_to (randperm n) k @ slice_from (randperm n) k = randperm n \<and>
      int (length (slice_to (randperm n) k)) = k \<and> int (length (slice_from (randperm n) k)) = V"
    if "0 \<le> k \<and> k \<le> int n \<and> length (randperm n) = n"
    using that by (auto simp: slice_to_def slice_from_def V min_def)
  show ?thesis
    using t tl(1,3) vl(1,3) ix parts
      train_batches_full [OF tl(1,2), of perm_t "ts_dataset ts"]
      val_batches_all [OF vl(1,2), of perm_v "ts_dataset ts"]
    by (intro exI [of _ ts]) simp
qed

text \<open>
  C10, with the product as the code computes it. For a non-empty bank with as many
  observations as parameters, \<open>k\<close> the result of
  \<^verbatim>\<open>int((1 - validation_fraction) * num_examples)\<close> in the float arithmetic,
  \<open>V = num_examples - k\<close> and \<open>min(batch_size, V)\<close> positive, \<^verbatim>\<open>_train\<close> reaches its epoch
  loop: both loaders have the batch size \<open>min(batch_size, V)\<close>, and the only warnings are
  those of the check of \<open>num_atoms\<close>. The training loader samples the first \<open>k\<close> permuted
  indices and the validation loader the others; when \<open>0 \<le> k \<le> num_examples\<close> and
  \<^verbatim>\<open>randperm\<close> returns \<open>num_examples\<close> indices, the two split the permutation and \<open>V\<close> is the
  number of validation indices. Every minibatch of the training loader has exactly
  \<open>min(batch_size, V)\<close> rows and there are as many as the indices its sampler yields hold
  full ones (the partial one is dropped); the validation loader yields every index of
  its sampler, in minibatches of at most that size.
\<close>

theorem train_minibatch_size:
  assumes bank: "theta_bank self \<noteq> []" "x_bank self \<noteq> []"
      "length (concat (theta_bank self)) = length (concat (x_bank self))"
    and n: "n = sum_list (map length (theta_bank self))"
    and k: "float_int fl (float_mul fl (float_sub fl (float_of_int fl 1) validation_fraction)
                            (float_of_int fl (int n))) = Inr k"
    and V: "V = int n - k"
    and pos: "0 < min batch_size V"
  shows "\<exists>ts. train fl randperm self num_atoms batch_size validation_fraction
               = (snd (clamp_and_warn ''num_atoms'' num_atoms 2 (min batch_size V)), Inr ts) \<and>
          ts_num_validation_examples ts = V \<and>
          dl_batch_size (ts_train_loader ts) = min batch_size V \<and>
          dl_batch_size (ts_val_loader ts) = min batch_size V \<and>
          dl_drop_last (ts_train_loader ts) \<and> \<not> dl_drop_last (ts_val_loader ts) \<and>
          dl_indices (ts_train_loader ts) = slice_to (randperm n) k \<and>
          dl_indices (ts_val_loader ts) = slice_from (randperm n) k \<and>
          (0 \<le> k \<and> k \<le> int n \<and> length (randperm n) = n \<longrightarrow>
             dl_indices (ts_train_loader ts) @ dl_indices (ts_val_loader ts) = randperm n \<and>
             int (length (dl_indices (ts_train_loader ts))) = k \<and>
             int (length (dl_indices (ts_val_loader ts))) = V) \<and>
          list_all (\<lambda>b. int (length b) = min batch_size V)
            (loader_batches (ts_train_loader ts) perm_t (ts_dataset ts)) \<and>
          length (loader_batches (ts_train_loader ts) perm_t (ts_dataset ts))
            = length perm_t div nat (min batch_size V) \<and>
          list_all (\<lambda>b. b \<noteq> [] \<and> int (length b) \<le> min batch_size V)
            (loader_batches (ts_val_loader ts) perm_v (ts_dataset ts)) \<and>
          concat (loader_batches (ts_val_loader ts) perm_v (ts_dataset ts))
            = map (\<lambda>i. ts_dataset ts ! (dl_indices (ts_val_loader ts) ! i)) perm_v"
  using assms by (rule train_loaders)

lemma example_estimator_fields:
  "example_estimator =
     \<lparr>theta_bank = [[[1], [2], [3], [4], [5], [6]], [[7], [8], [9], [10]]],
      x_bank = [[[10], [20], [30], [40], [50], [60]], [[70], [80], [90], [100]]],
      posterior = 1, untrained_classifier = Some 0, retrain_from_scratch_each_round = True\<rparr>"
  by (simp add: example_estimator_def ratio_estimator_init_def deepcopy_def)

lemma example_bank:
  "theta_bank example_estimator \<noteq> []" "x_bank example_estimator \<noteq> []"
  "length (concat (theta_bank example_estimator)) = length (concat (x_bank example_estimator))"
  "(10::nat) = sum_list (map length (theta_bank example_estimator))"
  by (simp_all add: example_estimator_fields)

lemma quarter_of_ten:
  "float_int double_ops (float_mul double_ops (float_sub double_ops (float_of_int double_ops 1) (1 / 4))
     (float_of_int double_ops (int 10))) = Inr 7"
  by code_simp

lemma upt10: "[0..<10] = [0, 1, 2, 3, 4, 5, 6, 7, 8, 9]"
  by (simp add: upt_rec)

theorem train_minibatch_size_witness:
  "theta_bank example_estimator \<noteq> [] \<and> x_bank example_estimator \<noteq> [] \<and>
   length (concat (theta_bank example_estimator)) = length (concat (x_bank example_estimator)) \<and>
   (10::nat) = sum_list (map length (theta_bank example_estimator)) \<and>
   float_int double_ops (float_mul double_ops (float_sub double_ops (float_of_int double_ops 1) (1 / 4))
     (float_of_int double_ops (int 10))) = Inr 7 \<and>
   (3::int) = int 10 - 7 \<and> (0::int) < min 4 3 \<and>
   (\<exists>ts. train double_ops (\<lambda>n. [0..<n]) example_estimator 2 4 (1 / 4) = ([], Inr ts) \<and>
         dl_batch_size (ts_train_loader ts) = 3 \<and> dl_batch_size (ts_val_loader ts) = 3 \<and>
         dl_drop_last (ts_train_loader ts) \<and> \<not> dl_drop_last (ts_val_loader ts) \<and>
         dl_indices (ts_train_loader ts) = [0, 1, 2, 3, 4, 5, 6] \<and>
         dl_indices (ts_val_loader ts) = [7, 8, 9] \<and>
         list_all (\<lambda>b. int (length b) = 3)
           (loader_batches (ts_train_loader ts) [6, 5, 4, 3, 2, 1, 0] (ts_dataset ts)) \<and>
         length (loader_batches (ts_train_loader ts) [6, 5, 4, 3, 2, 1, 0] (ts_dataset ts)) = 2 \<and>
         list_all (\<lambda>b. b \<noteq> [] \<and> int (length b) \<le> 3)
           (loader_batches (ts_val_loader ts) [2, 0, 1] (ts_dataset ts)) \<and>
         concat (loader_batches (ts_val_loader ts) [2, 0, 1] (ts_dataset ts))
           = [([10], [100]), ([8], [80]), ([9], [90])])"
proof -
  have h: "(3::int) = int 10 - 7" "(0::int) < min 4 3"
    by simp_all
  from train_minibatch_size [OF example_bank quarter_of_ten h, of "\<lambda>n. [0..<n]" 2
      "[6, 5, 4, 3, 2, 1, 0]" "[2, 0, 1]"]
  obtain ts where ts:
      "train double_ops (\<lambda>n. [0..<n]) example_estimator 2 4 (1 / 4)
         = (snd (clamp_and_warn ''num_atoms'' 2 2 (min 4 3)), Inr ts)"
      "dl_batch_size (ts_train_loader ts) = min 4 3" "dl_batch_size (ts_val_loader ts) = min 4 3"
      "dl_drop_last (ts_train_loader ts)" "\<not> dl_drop_last (ts_val_loader ts)"
      "dl_indices (ts_train_loader ts) = slice_to [0..<10] 7"
      "dl_indices (ts_val_loader ts) = slice_from [0..<10] 7"
      "list_all (\<lambda>b. int (length b) = min 4 3)
         (loader_batches (ts_train_loader ts) [6, 5, 4, 3, 2, 1, 0] (ts_dataset ts))"
      "length (loader_batches (ts_train_loader ts) [6, 5, 4, 3, 2, 1, 0] (ts_dataset ts))
         = length [6, 5, 4, 3, 2, 1, 0::nat] div nat (min 4 3)"
      "list_all (\<lambda>b. b \<noteq> [] \<and> int (length b) \<le> min 4 3)
         (loader_batches (ts_val_loader ts) [2, 0, 1] (ts_dataset ts))"
      "concat (loader_batches (ts_val_loader ts) [2, 0, 1] (ts_dataset ts))
         = map (\<lambda>i. ts_dataset ts ! (dl_indices (ts_val_loader ts) ! i)) [2, 0, 1]"
    by blast
  have w: "snd (clamp_and_warn ''num_atoms'' 2 2 (min 4 3)) = []"
    by (simp add: clamp_and_warn_def)
  have ds: "ts_dataset ts = zip (concat (theta_bank example_estimator)) (concat (x_bank example_estimator))"
    using ts(1) example_bank(1,2,3)
    by (auto simp: train_def Let_def quarter_of_ten example_bank(4) [symmetric] TensorDataset_def
        split: prod.splits sum.splits)
  have ix: "slice_to [0..<10] 7 = [0, 1, 2, 3, 4, 5, 6]" "slice_from [0..<10] 7 = [7, 8, 9]"
    by (simp_all add: slice_to_def slice_from_def upt10)
  have rows: "map (\<lambda>i. ts_dataset ts ! ([7, 8, 9] ! i)) [2, 0, 1]
      = [([10], [100]), ([8], [80]), ([9], [90])]"
    unfolding ds by (simp add: example_estimator_fields)
  have m: "min (4::int) 3 = 3" by simp
  have l: "length [6, 5, 4, 3, 2, 1, 0::nat] div nat 3 = 2" by simp
  show ?thesis
    using example_bank quarter_of_ten h ts rows
    unfolding w ix m l by (intro conjI exI [of _ ts]) (simp_all add: clamp_and_warn_def)
qed

text \<open>
  C10 as stated, with the floor of the exact product, does not hold. The float nearest to
  0.3 is \<open>5404319552844595 / 2 ^ 54\<close>. With it and 90 examples the float product is just
  below 63 and \<^verbatim>\<open>int\<close> gives 62 training examples: both loaders have batch size 28 and the
  validation loader 28 indices, while the floor of the exact product is 63 and
  \<open>min(batch_size, 90 - 63)\<close> is 27.
\<close>

lemma three_tenths_of_ninety:
  "float_int double_ops (float_mul double_ops
     (float_sub double_ops (float_of_int double_ops 1) (5404319552844595 / 18014398509481984))
     (float_of_int double_ops (int 90))) = Inr 62"
  by code_simp

lemma bank90_fields:
  "theta_bank bank90 \<noteq> []" "x_bank bank90 \<noteq> []"
  "length (concat (theta_bank bank90)) = length (concat (x_bank bank90))"
  "(90::nat) = sum_list (map length (theta_bank bank90))"
  by (simp_all add: bank90_def ratio_estimator_init_def)

theorem train_exact_product_counterexample:
  "round_double (3 / 10) = 5404319552844595 / 18014398509481984 \<and>
   (\<exists>ts. train double_ops (\<lambda>n. [0..<n]) bank90 2 100 (5404319552844595 / 18014398509481984)
           = ([], Inr ts) \<and>
         dl_batch_size (ts_train_loader ts) = 28 \<and> dl_batch_size (ts_val_loader ts) = 28 \<and>
         int (length (dl_indices (ts_val_loader ts))) = 28) \<and>
   min 100 (int 90 - \<lfloor>(1 - 5404319552844595 / 18014398509481984 :: rat) * of_nat 90\<rfloor>) = 27"
proof -
  have r: "round_double (3 / 10) = 5404319552844595 / 18014398509481984"
    by code_simp
  have h: "(28::int) = int 90 - 62" "(0::int) < min 100 28"
    by simp_all
  from train_loaders [OF bank90_fields three_tenths_of_ninety h, of "\<lambda>n. [0..<n]" 2 "[]" "[]"]
  obtain ts where ts:
      "train double_ops (\<lambda>n. [0..<n]) bank90 2 100 (5404319552844595 / 18014398509481984)
         = (snd (clamp_and_warn ''num_atoms'' 2 2 (min 100 28)), Inr ts)"
      "dl_batch_size (ts_train_loader ts) = min 100 28" "dl_batch_size (ts_val_loader ts) = min 100 28"
      "0 \<le> (62::int) \<and> (62::int) \<le> int 90 \<and> length [0..<90] = 90 \<longrightarrow>
         int (length (dl_indices (ts_val_loader ts))) = 28"
    by blast
  have w: "snd (clamp_and_warn ''num_atoms'' 2 2 (min 100 28)) = []"
    by (simp add: clamp_and_warn_def)
  have "\<lfloor>(1 - 5404319552844595 / 18014398509481984 :: rat) * of_nat 90\<rfloor> = 63"
    by (simp add: floor_eq_iff)
  then have f: "min 100 (int 90 - \<lfloor>(1 - 5404319552844595 / 18014398509481984 :: rat) * of_nat 90\<rfloor>) = 27"
    by simp
  show ?thesis
    using r ts f unfolding w by (intro conjI exI [of _ ts]) simp_all
qed

text \<open>
  C3 does not hold of the code. Whenever \<^verbatim>\<open>_train\<close> reaches its epoch loop, the posterior
  it trains is the one it was called with, also when retraining from scratch is
  configured: the reset deep-copies the current posterior, and the untrained copy kept at
  construction is not read.
\<close>

theorem train_keeps_current_posterior:
  "snd (train fl randperm self num_atoms batch_size validation_fraction) = Inr ts \<Longrightarrow>
     posterior (ts_self ts) = posterior self \<and>
     untrained_classifier (ts_self ts) = untrained_classifier self"
  by (auto simp: train_def Let_def deepcopy_def split: prod.splits sum.splits if_splits)

theorem train_keeps_current_posterior_witness:
  "\<exists>ts. snd (train double_ops (\<lambda>n. [0..<n]) example_estimator 2 4 (1 / 4)) = Inr ts \<and>
        retrain_from_scratch_each_round example_estimator \<and>
        posterior (ts_self ts) = 1 \<and> untrained_classifier (ts_self ts) = Some 0"
proof -
  have h: "(3::int) = int 10 - 7" "(0::int) < min 4 3"
    by simp_all
  from train_loaders [OF example_bank quarter_of_ten h, of "\<lambda>n. [0..<n]" 2 "[]" "[]"]
  obtain ts where ts: "snd (train double_ops (\<lambda>n. [0..<n]) example_estimator 2 4 (1 / 4)) = Inr ts"
    by auto
  from train_keeps_current_posterior [OF ts] ts show ?thesis
    by (auto simp: example_estimator_fields)
qed

lemma probs_undrawable:
  assumes "int B < K"
  shows "multinomial_raises (probs_matrix B) (K - 1)"
proof (cases "2 \<le> B")
  case True
  then have "0 < B" by simp
  then have "probs_matrix B ! 0 \<in> set (probs_matrix B)"
    by (simp add: probs_shape)
  moreover have "int (length (filter nonzero (probs_matrix B ! 0))) < K - 1"
    using True assms \<open>0 < B\<close> by (simp add: probs_nonzero_count)
  ultimately show ?thesis
    by (auto simp: multinomial_raises_def list_ex_iff)
next
  case False
  then consider "B = 0" | "B = 1" by linarith
  then show ?thesis
  proof cases
    case 1
    then show ?thesis by (simp add: multinomial_raises_def probs_matrix_def)
  next
    case 2
    then show ?thesis
      by (simp add: multinomial_raises_def probs_matrix_def float_div_def is_weight_def)
  qed
qed

lemma classifier_logits_raises:
  assumes "conforms multinomial (probs_matrix (length theta)) (num_atoms - 1)"
    and "int (length theta) < num_atoms"
  shows "\<exists>e. classifier_logits multinomial net theta x num_atoms = Inl e"
proof -
  from assms(2) have "multinomial_raises (probs_matrix (length theta)) (num_atoms - 1)"
    by (rule probs_undrawable)
  with assms(1) obtain e where "multinomial (probs_matrix (length theta)) (num_atoms - 1) = Inl e"
    by (cases "multinomial (probs_matrix (length theta)) (num_atoms - 1)") (auto simp: conforms_def)
  then show ?thesis
    by (simp add: classifier_logits_def make_atomic_theta_def Let_def)
qed

text \<open>
  C5 does not hold of the ratio-estimation family. \<^verbatim>\<open>_train\<close> calls \<^verbatim>\<open>clamp_and_warn\<close> and
  drops its result: the \<open>num_atoms\<close> handed to the loss is the requested one. With more
  atoms than rows in the batch, \<^verbatim>\<open>_classifier_logits\<close> asks the sampler for more indices
  than a row has non-zero weights, and raises; so does the pass of the epoch loop over the
  minibatches when the loss is computed from these logits.
\<close>

theorem ratio_estimator_num_atoms_unclamped:
  "(snd (train fl randperm self num_atoms batch_size validation_fraction) = Inr ts \<longrightarrow>
       ts_num_atoms ts = num_atoms) \<and>
   (conforms multinomial (probs_matrix (length theta)) (num_atoms - 1) \<and> int (length theta) < num_atoms \<longrightarrow>
       (\<exists>e. classifier_logits multinomial net theta x num_atoms = Inl e)) \<and>
   (conforms multinomial (probs_matrix (length batch)) (num_atoms - 1) \<and> int (length batch) < num_atoms \<longrightarrow>
       (\<exists>e. train_epoch (\<lambda>w theta x K. classifier_logits multinomial (net_of w) theta x K) step
              num_atoms w (batch # rest) = Inl e))"
proof -
  have kept: "ts_num_atoms ts = num_atoms"
    if "snd (train fl randperm self num_atoms batch_size validation_fraction) = Inr ts"
    using that by (auto simp: train_def Let_def split: prod.splits sum.splits)
  have epoch: "\<exists>e. train_epoch (\<lambda>w theta x K. classifier_logits multinomial (net_of w) theta x K) step
              num_atoms w (batch # rest) = Inl e"
    if a: "conforms multinomial (probs_matrix (length batch)) (num_atoms - 1) \<and> int (length batch) < num_atoms"
  proof -
    from a have "conforms multinomial (probs_matrix (length (map fst batch))) (num_atoms - 1)"
        "int (length (map fst batch)) < num_atoms"
      by simp_all
    from classifier_logits_raises [OF this, of "net_of w" "map snd batch"] show ?thesis
      by auto
  qed
  from classifier_logits_raises [of multinomial theta num_atoms net x] kept epoch
  show ?thesis by blast
qed

lemma first_choice_3_4:
  "first_choice_multinomial (probs_matrix 3) 4 = Inl (RuntimeError ''invalid multinomial distribution'')"
  by (simp add: first_choice_multinomial_def probs_matrix_def float_div_def multinomial_raises_def
      is_weight_def nonzero_def upt3)

lemma conforms_3_4: "conforms first_choice_multinomial (probs_matrix 3) (5 - 1)"
  by (simp add: conforms_def first_choice_3_4)
     (simp add: probs_matrix_def float_div_def multinomial_raises_def
      is_weight_def nonzero_def upt3)

theorem ratio_estimator_num_atoms_unclamped_witness:
  "(\<exists>ts. train double_ops (\<lambda>n. [0..<n]) example_estimator 5 3 (1 / 4) = ([''num_atoms was clamped''], Inr ts) \<and>
         dl_batch_size (ts_train_loader ts) = 3 \<and> ts_num_atoms ts = 5) \<and>
   clamp_and_warn ''num_atoms'' 5 2 3 = (3, [''num_atoms was clamped'']) \<and>
   conforms first_choice_multinomial (probs_matrix (length [[1], [2], [3::int]])) (5 - 1) \<and>
   int (length [[1], [2], [3::int]]) < 5 \<and>
   classifier_logits first_choice_multinomial (\<lambda>t. Inr t) [[1], [2], [3::int]] [[10], [20], [30]] 5
     = Inl (RuntimeError ''invalid multinomial distribution'')"
proof -
  have len: "length [[1], [2], [3::int]] = 3" by simp
  have k: "clamp_and_warn ''num_atoms'' 5 2 3 = (3, [''num_atoms was clamped''])"
    by (simp add: clamp_and_warn_def)
  have h: "(3::int) = int 10 - 7" "(0::int) < min 3 3"
    by simp_all
  from train_loaders [OF example_bank quarter_of_ten h, of "\<lambda>n. [0..<n]" 5 "[]" "[]"]
  obtain ts where ts: "train double_ops (\<lambda>n. [0..<n]) example_estimator 5 3 (1 / 4) = ([''num_atoms was clamped''], Inr ts)"
      "dl_batch_size (ts_train_loader ts) = 3"
    by (auto simp: k)
  have c: "conforms first_choice_multinomial (probs_matrix (length [[1], [2], [3::int]])) (5 - 1) \<and>
      int (length [[1], [2], [3::int]]) < 5"
    unfolding len using conforms_3_4 by simp
  have l: "classifier_logits first_choice_multinomial (\<lambda>t. Inr t) [[1], [2], [3::int]] [[10], [20], [30]] 5
     = Inl (RuntimeError ''invalid multinomial distribution'')"
    unfolding classifier_logits_def make_atomic_theta_def Let_def len
    by (simp add: first_choice_3_4)
  have tsnd: "snd (train double_ops (\<lambda>n. [0..<n]) example_estimator 5 3 (1 / 4)) = Inr ts"
    using ts(1) by simp
  from ratio_estimator_num_atoms_unclamped [where fl = double_ops and randperm = "\<lambda>n. [0..<n]"
      and self = example_estimator
      and num_atoms = 5 and batch_size = 3 and validation_fraction = "1 / 4" and ts = ts
      and multinomial = first_choice_multinomial and theta = "[[1], [2], [3::int]]"
      and net = "\<lambda>t. Inr t" and x = "[[10], [20], [30]]"
      and batch = "[([1], [10]), ([2], [20]), ([3::int], [30])]" and rest = "[]"
      and net_of = "\<lambda>w t. Inr t" and step = "\<lambda>w l. w" and w = "0::int",
      THEN conjunct1, rule_format, OF tsnd]
  have "ts_num_atoms ts = 5" .
  with ts c l k show ?thesis by blast
qed

section \<open>Properties of the proposal-posterior loss\<close>

lemma chop_first_piece:
  assumes "xs \<noteq> []" and "0 < n"
  shows "chop n xs = take n xs # chop n (drop n xs)"
proof -
  from assms obtain y ys m where "xs = y # ys" "n = Suc m"
    by (metis list.exhaust gr0_implies_Suc)
  then show ?thesis by simp
qed

lemma take_as_map: "n \<le> length xs \<Longrightarrow> take n xs = map (\<lambda>k. xs ! k) [0..<n]"
  by (intro nth_equalityI) simp_all

lemma chop_rows:
  assumes "0 < K"
  shows "length xs = B * K \<Longrightarrow> chop K xs = map (\<lambda>i. map (\<lambda>k. xs ! (i * K + k)) [0..<K]) [0..<B]"
proof (induction B arbitrary: xs)
  case 0
  then show ?case using assms by (cases K) simp_all
next
  case (Suc B)
  then have ne: "xs \<noteq> []" and le: "K \<le> length xs" and dl: "length (drop K xs) = B * K"
    using assms by auto
  have "chop K xs = take K xs # chop K (drop K xs)"
    using ne assms by (rule chop_first_piece)
  also have "chop K (drop K xs) = map (\<lambda>i. map (\<lambda>k. drop K xs ! (i * K + k)) [0..<K]) [0..<B]"
    using dl by (rule Suc.IH)
  also have "\<dots> = map (\<lambda>i. map (\<lambda>k. xs ! (Suc i * K + k)) [0..<K]) [0..<B]"
    using le by (simp add: add.assoc)
  also have "take K xs = map (\<lambda>k. xs ! (0 * K + k)) [0..<K]"
    using le by (simp add: take_as_map)
  finally show ?case
    by (simp add: upt_conv_Cons map_Suc_upt [symmetric] del: upt_Suc)
qed

lemma map2_index:
  "length xs = n \<Longrightarrow> length ys = n \<Longrightarrow> map2 f xs ys = map (\<lambda>i. f (xs ! i) (ys ! i)) [0..<n]"
  by (intro nth_equalityI) simp_all

lemma reshape2_rows:
  assumes "0 < K" "length v = B * K"
  shows "reshape2 (int B) (int K) v = Inr (map (\<lambda>i. map (\<lambda>k. v ! (i * K + k)) [0..<K]) [0..<B])"
  using assms chop_rows [OF assms(1), of v B]
  by (simp add: reshape2_def del: of_nat_mult flip: of_nat_mult)

lemma clamp_range:
  "clamp_and_warn name v 2 hi = (k, w) \<Longrightarrow> 2 \<le> k"
  by (auto simp: clamp_and_warn_def Let_def)

lemma column0_rows:
  assumes "0 < K"
  shows "column0 (map (unnormalized_row ops lp pr K) ixs)
       = Inr (map (\<lambda>i. unnormalized_row ops lp pr K i ! 0) ixs)"
proof -
  have "[] \<noteq> unnormalized_row ops lp pr K i" for i
    using assms by (simp add: unnormalized_row_def)
  then show ?thesis
    by (auto simp: column0_def list_ex_iff)
qed

lemma snpe_core:
  fixes theta :: "'a list list"
  assumes K: "K = nat (fst (clamp_and_warn ''num_atoms'' self_num_atoms 2 (int (length theta))))"
    and atoms: "make_atomic_theta multinomial theta (int K) = Inr atoms"
    and lp: "net_log_prob atoms (repeat_rows x (int K)) = Inr lp" "length lp = length theta * K"
    and pr: "prior_log_prob atoms = Inr pr" "length pr = length theta * K"
  shows "snd (snpe_c_log_prob_proposal_posterior ops multinomial net_log_prob prior_log_prob
            self_num_atoms use_combined_loss theta x masks) =
     (if \<not> list_all (torch_isfinite ops) lp
        then Inl (AssertionError ''NaN/Inf present in posterior eval.'')
      else if \<not> list_all (torch_isfinite ops) pr
        then Inl (AssertionError ''NaN/Inf present in prior eval.'')
      else if \<not> list_all (torch_isfinite ops) (map (atomic_log_prob ops lp pr K) [0..<length theta])
        then Inl (AssertionError ''NaN/Inf present in proposal posterior eval.'')
      else if use_combined_loss then
        (case net_log_prob theta x of
           Inl e \<Rightarrow> Inl e
         | Inr log_prob_posterior_non_atomic \<Rightarrow>
             (case broadcast2 (torch_mul ops) (concat masks) log_prob_posterior_non_atomic of
                Inl e \<Rightarrow> Inl e
              | Inr masked \<Rightarrow>
                  broadcast2 (torch_add ops) masked (map (atomic_log_prob ops lp pr K) [0..<length theta])))
      else Inr (map (atomic_log_prob ops lp pr K) [0..<length theta]))"
proof -
  define B where "B = length theta"
  obtain k w where cw: "clamp_and_warn ''num_atoms'' self_num_atoms 2 (int B) = (k, w)"
    by (cases "clamp_and_warn ''num_atoms'' self_num_atoms 2 (int B)")
  have k2: "2 \<le> k" using cw by (rule clamp_range)
  have kK: "k = int K" using K cw k2 by (simp add: B_def)
  have Kpos: "0 < K" using k2 kK by simp
  define U where "U = map (unnormalized_row ops lp pr K) [0..<B]"
  define N where "N = map (atomic_log_prob ops lp pr K) [0..<B]"
  have rlp: "reshape2 (int B) (int K) lp = Inr (map (\<lambda>i. map (\<lambda>k. lp ! (i * K + k)) [0..<K]) [0..<B])"
    using Kpos lp(2) by (intro reshape2_rows) (simp_all add: B_def)
  have rpr: "reshape2 (int B) (int K) pr = Inr (map (\<lambda>i. map (\<lambda>k. pr ! (i * K + k)) [0..<K]) [0..<B])"
    using Kpos pr(2) by (intro reshape2_rows) (simp_all add: B_def)
  have cpr: "concat (map (\<lambda>i. map (\<lambda>k. pr ! (i * K + k)) [0..<K]) [0..<B]) = pr"
  proof -
    have "chop K pr = map (\<lambda>i. map (\<lambda>k. pr ! (i * K + k)) [0..<K]) [0..<B]"
      using Kpos pr(2) by (intro chop_rows) (simp_all add: B_def)
    then show ?thesis
      using concat_chop [OF Kpos, of pr] by simp
  qed
  have u: "map2 (map2 (torch_sub ops)) (map (\<lambda>i. map (\<lambda>k. lp ! (i * K + k)) [0..<K]) [0..<B])
              (map (\<lambda>i. map (\<lambda>k. pr ! (i * K + k)) [0..<K]) [0..<B]) = U"
    by (simp add: U_def unnormalized_row_def map2_map_map)
  have c0: "column0 U = Inr (map (\<lambda>i. unnormalized_row ops lp pr K i ! 0) [0..<B])"
    unfolding U_def using Kpos by (rule column0_rows)
  have nrm: "map2 (torch_sub ops) (map (\<lambda>i. unnormalized_row ops lp pr K i ! 0) [0..<B])
               (map (torch_logsumexp ops) U) = N"
    by (simp add: U_def N_def atomic_log_prob_def map2_map_map o_def)
  show ?thesis
    unfolding snpe_c_log_prob_proposal_posterior_def Let_def B_def [symmetric] cw kK
      prod.case snd_conv atoms lp(1) pr(1) rlp rpr cpr sum.case u c0 nrm N_def
    by (simp add: assert_all_finite_def)
qed

lemma repeat_rows_self:
  assumes "0 < K" "i < length x"
  shows "repeat_rows x (int K) ! (i * K) = x ! i"
proof -
  have "concat (map (replicate K) x) ! (i * K + 0) = map (replicate K) x ! i ! 0"
    using assms by (intro nth_concat_blocks) (simp_all add: list_all_iff)
  then show ?thesis
    using assms by (simp add: repeat_rows_def)
qed

text \<open>
  C2. Let \<open>K\<close> be the clamped atom count, \<open>atoms\<close> the atom sets of a batch \<open>theta\<close> of at
  least two rows of one length with a matching batch \<open>x\<close>, and \<open>lp\<close>, \<open>pr\<close> the model's
  and the prior's log-densities on the \<open>B * K\<close> atomic pairs, one value per pair, all three
  finiteness checks passing. Then entry \<open>i * K\<close> of the atomic pairs, index 0 of row \<open>i\<close>,
  is the pair \<open>(theta[i], x[i])\<close>, and \<^verbatim>\<open>_log_prob_proposal_posterior\<close> returns for example \<open>i\<close>
  the value \<^verbatim>\<open>unnormalized[i, 0] - logsumexp(unnormalized[i])\<close>; with the combined loss, where
  the model's log-density \<open>non_atomic\<close> on the batch and the mask have one value per row, it
  returns that value plus \<open>mask[i] * non_atomic[i]\<close>.
\<close>

theorem proposal_posterior_value:
  fixes theta :: "'a list list"
  assumes B: "2 \<le> length theta" and d: "list_all (\<lambda>row. length row = d) theta"
    and x: "length x = length theta"
    and K: "K = nat (fst (clamp_and_warn ''num_atoms'' self_num_atoms 2 (int (length theta))))"
    and conf: "conforms multinomial (probs_matrix (length theta)) (int K - 1)"
    and atoms: "make_atomic_theta multinomial theta (int K) = Inr atoms"
    and lp: "net_log_prob atoms (repeat_rows x (int K)) = Inr lp" "length lp = length theta * K"
    and pr: "prior_log_prob atoms = Inr pr" "length pr = length theta * K"
    and fin: "list_all (torch_isfinite ops) lp" "list_all (torch_isfinite ops) pr"
      "list_all (torch_isfinite ops) (map (atomic_log_prob ops lp pr K) [0..<length theta])"
    and comb: "use_combined_loss \<longrightarrow>
      net_log_prob theta x = Inr non_atomic \<and> length non_atomic = length theta \<and>
      length (concat masks) = length theta"
  shows "(\<forall>i<length theta. atoms ! (i * K) = theta ! i \<and> repeat_rows x (int K) ! (i * K) = x ! i) \<and>
     snd (snpe_c_log_prob_proposal_posterior ops multinomial net_log_prob prior_log_prob
            self_num_atoms use_combined_loss theta x masks)
       = Inr (map (\<lambda>i. if use_combined_loss
                          then torch_add ops (torch_mul ops (concat masks ! i) (non_atomic ! i))
                                 (atomic_log_prob ops lp pr K i)
                          else atomic_log_prob ops lp pr K i) [0..<length theta])"
proof
  have k: "2 \<le> int K" "int K \<le> int (length theta)"
    using K B by (simp_all add: clamp_and_warn_def Let_def)
  from atom_blocks [OF B k d conf, of "\<lambda>t. Inr t" "[]"] atoms
  have self: "atoms ! (i * K) = theta ! i" if "i < length theta" for i
    using that by auto
  show "\<forall>i<length theta. atoms ! (i * K) = theta ! i \<and> repeat_rows x (int K) ! (i * K) = x ! i"
    using self k(1) x by (simp add: repeat_rows_self)
  let ?N = "map (atomic_log_prob ops lp pr K) [0..<length theta]"
  show "snd (snpe_c_log_prob_proposal_posterior ops multinomial net_log_prob prior_log_prob
            self_num_atoms use_combined_loss theta x masks)
       = Inr (map (\<lambda>i. if use_combined_loss
                          then torch_add ops (torch_mul ops (concat masks ! i) (non_atomic ! i))
                                 (atomic_log_prob ops lp pr K i)
                          else atomic_log_prob ops lp pr K i) [0..<length theta])"
  proof (cases use_combined_loss)
    case False
    then show ?thesis
      using fin by (simp add: snpe_core [where net_log_prob = net_log_prob and prior_log_prob = prior_log_prob and x = x
        and multinomial = multinomial and theta = theta and atoms = atoms and lp = lp and pr = pr,
        OF K atoms lp pr])
  next
    case True
    with comb have na: "net_log_prob theta x = Inr non_atomic" "length non_atomic = length theta"
      "length (concat masks) = length theta"
      by simp_all
    have m: "broadcast2 (torch_mul ops) (concat masks) non_atomic
        = Inr (map (\<lambda>i. torch_mul ops (concat masks ! i) (non_atomic ! i)) [0..<length theta])"
      using na(2,3) by (simp add: broadcast2_def map2_index)
    have a: "broadcast2 (torch_add ops)
          (map (\<lambda>i. torch_mul ops (concat masks ! i) (non_atomic ! i)) [0..<length theta]) ?N
        = Inr (map (\<lambda>i. torch_add ops (torch_mul ops (concat masks ! i) (non_atomic ! i))
                           (atomic_log_prob ops lp pr K i)) [0..<length theta])"
      by (simp add: broadcast2_def map2_map_map)
    show ?thesis
      using fin True by (simp add: snpe_core [where net_log_prob = net_log_prob and prior_log_prob = prior_log_prob and x = x
        and multinomial = multinomial and theta = theta and atoms = atoms and lp = lp and pr = pr,
        OF K atoms lp pr] na(1) m a)
  qed
qed

lemma upt2: "[0..<2] = [0, 1]"
  by (simp add: upt_rec)

lemma first_choice_2_1:
  "first_choice_multinomial (probs_matrix 2) 1 = Inr [[1], [0]]"
  by (simp add: first_choice_multinomial_def probs_matrix_def float_div_def multinomial_raises_def
      is_weight_def nonzero_def upt2)

lemma conforms_2_1: "conforms first_choice_multinomial (probs_matrix 2) 1"
  by (simp add: conforms_def first_choice_2_1)
     (simp add: probs_matrix_def float_div_def multinomial_raises_def multinomial_returns_def
      is_weight_def nonzero_def upt2)

lemma len_theta2: "length theta2 = 2"
  by (simp add: theta2_def)

lemma make_atoms2: "make_atomic_theta first_choice_multinomial theta2 2 = Inr atoms2"
  unfolding make_atomic_theta_def Let_def len_theta2
  by (simp add: first_choice_2_1 theta2_def atoms2_def gather_def cat_dim1_def reshape_rows_def Let_def)

lemma clamp_10: "clamp_and_warn ''num_atoms'' 10 2 2 = (2, [''num_atoms was clamped''])"
  by (simp add: clamp_and_warn_def)

lemma atomic_values:
  "atomic_log_prob num_ops [Num 1, Num 2, Num 2, Num 1] [Num 0, Num 0, Num 0, Num 0] 2 0
     = Num (1 - ln (exp 1 + exp 2))"
  "atomic_log_prob num_ops [Num 1, Num 2, Num 2, Num 1] [Num 0, Num 0, Num 0, Num 0] 2 (Suc 0)
     = Num (2 - ln (exp 2 + exp 1))"
  by (simp_all add: atomic_log_prob_def unnormalized_row_def num_ops_def upt2)

lemma num_ops_simps:
  "torch_isfinite num_ops (Num r)"
  "torch_mul num_ops (Num a) (Num b) = Num (a * b)"
  "torch_add num_ops (Num a) (Num b) = Num (a + b)"
  by (simp_all add: num_ops_def)

theorem proposal_posterior_value_witness:
  "2 \<le> length theta2 \<and> list_all (\<lambda>row. length row = 1) theta2 \<and>
   length [10, 20::nat] = length theta2 \<and>
   (2::nat) = nat (fst (clamp_and_warn ''num_atoms'' 10 2 (int (length theta2)))) \<and>
   conforms first_choice_multinomial (probs_matrix (length theta2)) (int 2 - 1) \<and>
   make_atomic_theta first_choice_multinomial theta2 (int 2) = Inr atoms2 \<and>
   first_entry atoms2 (repeat_rows [10, 20] (int 2)) = Inr [Num 1, Num 2, Num 2, Num 1] \<and>
   constant_log_prob (Num 0) atoms2 = Inr [Num 0, Num 0, Num 0, Num 0] \<and>
   first_entry theta2 [10, 20] = Inr [Num 1, Num 2] \<and>
   snpe_c_log_prob_proposal_posterior num_ops first_choice_multinomial first_entry
       (constant_log_prob (Num 0)) 10 True theta2 [10, 20] [[Num 1], [Num 0]]
     = ([''num_atoms was clamped''],
        Inr [Num (1 + (1 - ln (exp 1 + exp 2))), Num (2 - ln (exp 2 + exp 1))])"
proof -
  have h: "2 \<le> length theta2" "list_all (\<lambda>row. length row = 1) theta2"
    "length [10, 20::nat] = length theta2"
    "(2::nat) = nat (fst (clamp_and_warn ''num_atoms'' 10 2 (int (length theta2))))"
    "conforms first_choice_multinomial (probs_matrix (length theta2)) (int 2 - 1)"
    "make_atomic_theta first_choice_multinomial theta2 (int 2) = Inr atoms2"
    using conforms_2_1 make_atoms2 by (simp_all add: len_theta2 clamp_10) (simp add: theta2_def)
  have lp: "first_entry atoms2 (repeat_rows [10, 20] (int 2)) = Inr [Num 1, Num 2, Num 2, Num 1]"
    "length [Num 1, Num 2, Num 2, Num 1] = length theta2 * 2"
    by (simp_all add: first_entry_def atoms2_def len_theta2)
  have pr: "constant_log_prob (Num 0) atoms2 = Inr [Num 0, Num 0, Num 0, Num 0]"
    "length [Num 0, Num 0, Num 0, Num 0] = length theta2 * 2"
    by (simp_all add: constant_log_prob_def atoms2_def len_theta2)
  have fin: "list_all (torch_isfinite num_ops) [Num 1, Num 2, Num 2, Num 1]"
    "list_all (torch_isfinite num_ops) [Num 0, Num 0, Num 0, Num 0]"
    "list_all (torch_isfinite num_ops)
       (map (atomic_log_prob num_ops [Num 1, Num 2, Num 2, Num 1] [Num 0, Num 0, Num 0, Num 0] 2)
          [0..<length theta2])"
    unfolding len_theta2 upt2 by (simp_all add: atomic_values num_ops_simps)
  have comb: "True \<longrightarrow> first_entry theta2 [10, 20] = Inr [Num 1, Num 2] \<and>
      length [Num 1, Num 2] = length theta2 \<and> length (concat [[Num 1], [Num 0]]) = length theta2"
    by (simp add: first_entry_def theta2_def)
  have w: "fst (snpe_c_log_prob_proposal_posterior num_ops first_choice_multinomial first_entry
       (constant_log_prob (Num 0)) 10 True theta2 [10, 20] [[Num 1], [Num 0]]) = [''num_atoms was clamped'']"
    by (simp add: snpe_c_log_prob_proposal_posterior_def Let_def len_theta2 clamp_10)
  from proposal_posterior_value [where ops = num_ops and net_log_prob = first_entry
      and prior_log_prob = "constant_log_prob (Num 0)" and masks = "[[Num 1], [Num 0]]",
      OF h lp pr fin comb]
  have "snd (snpe_c_log_prob_proposal_posterior num_ops first_choice_multinomial first_entry
       (constant_log_prob (Num 0)) 10 True theta2 [10, 20] [[Num 1], [Num 0]])
     = Inr [Num (1 + (1 - ln (exp 1 + exp 2))), Num (2 - ln (exp 2 + exp 1))]"
    unfolding len_theta2 upt2 by (simp add: atomic_values num_ops_simps)
  with w have "snpe_c_log_prob_proposal_posterior num_ops first_choice_multinomial first_entry
       (constant_log_prob (Num 0)) 10 True theta2 [10, 20] [[Num 1], [Num 0]]
     = ([''num_atoms was clamped''],
        Inr [Num (1 + (1 - ln (exp 1 + exp 2))), Num (2 - ln (exp 2 + exp 1))])"
    by (simp add: prod_eq_iff)
  with h lp(1) pr(1) comb show ?thesis by blast
qed

text \<open>
  C8. With the atoms built and the model and the prior returning one value per atomic
  pair: a value of the model's atomic log-density that is not finite makes
  \<^verbatim>\<open>_log_prob_proposal_posterior\<close> raise the assertion error of the first check, one of the
  prior's log-density that of the second, one of the normalized proposal-posterior
  log-probability that of the third; and whenever the function returns a value, all three
  were finite.
\<close>

theorem non_finite_values_raise:
  fixes theta :: "'a list list"
  assumes K: "K = nat (fst (clamp_and_warn ''num_atoms'' self_num_atoms 2 (int (length theta))))"
    and atoms: "make_atomic_theta multinomial theta (int K) = Inr atoms"
    and lp: "net_log_prob atoms (repeat_rows x (int K)) = Inr lp" "length lp = length theta * K"
    and pr: "prior_log_prob atoms = Inr pr" "length pr = length theta * K"
  shows "(\<not> list_all (torch_isfinite ops) lp \<longrightarrow>
            snd (snpe_c_log_prob_proposal_posterior ops multinomial net_log_prob prior_log_prob
                   self_num_atoms use_combined_loss theta x masks)
              = Inl (AssertionError ''NaN/Inf present in posterior eval.'')) \<and>
         (list_all (torch_isfinite ops) lp \<and> \<not> list_all (torch_isfinite ops) pr \<longrightarrow>
            snd (snpe_c_log_prob_proposal_posterior ops multinomial net_log_prob prior_log_prob
                   self_num_atoms use_combined_loss theta x masks)
              = Inl (AssertionError ''NaN/Inf present in prior eval.'')) \<and>
         (list_all (torch_isfinite ops) lp \<and> list_all (torch_isfinite ops) pr \<and>
          \<not> list_all (torch_isfinite ops) (map (atomic_log_prob ops lp pr K) [0..<length theta]) \<longrightarrow>
            snd (snpe_c_log_prob_proposal_posterior ops multinomial net_log_prob prior_log_prob
                   self_num_atoms use_combined_loss theta x masks)
              = Inl (AssertionError ''NaN/Inf present in proposal posterior eval.'')) \<and>
         (\<forall>r. snd (snpe_c_log_prob_proposal_posterior ops multinomial net_log_prob prior_log_prob
                   self_num_atoms use_combined_loss theta x masks) = Inr r \<longrightarrow>
            list_all (torch_isfinite ops) lp \<and> list_all (torch_isfinite ops) pr \<and>
            list_all (torch_isfinite ops) (map (atomic_log_prob ops lp pr K) [0..<length theta]))"
  unfolding snpe_core [where net_log_prob = net_log_prob and prior_log_prob = prior_log_prob and x = x
        and multinomial = multinomial and theta = theta and atoms = atoms and lp = lp and pr = pr,
        OF K atoms lp pr]
  by (simp split: if_splits)

lemma K2: "(2::nat) = nat (fst (clamp_and_warn ''num_atoms'' 2 2 (int (length theta2))))"
  by (simp add: clamp_and_warn_def len_theta2)

lemma atoms2': "make_atomic_theta first_choice_multinomial theta2 (int 2) = Inr atoms2"
  using make_atoms2 by simp

lemma const_atoms2:
  "constant_log_prob c atoms2 = Inr [c, c, c, c]" "length [c, c, c, c] = length theta2 * 2"
  by (simp_all add: constant_log_prob_def atoms2_def len_theta2)

lemma first_atoms2:
  "first_entry atoms2 rx = Inr [Num 1, Num 2, Num 2, Num 1]"
  "length [Num 1, Num 2, Num 2, Num 1] = length theta2 * 2"
  by (simp_all add: first_entry_def atoms2_def len_theta2)

lemma overflow_value:
  "atomic_log_prob float32_ops [Num float32_max, Num float32_max, Num float32_max, Num float32_max]
     [Num (- float32_max), Num (- float32_max), Num (- float32_max), Num (- float32_max)] 2 0 = NotANumber"
  "atomic_log_prob float32_ops [Num float32_max, Num float32_max, Num float32_max, Num float32_max]
     [Num (- float32_max), Num (- float32_max), Num (- float32_max), Num (- float32_max)] 2 (Suc 0) = NotANumber"
  by (simp_all add: atomic_log_prob_def unnormalized_row_def float32_ops_def num_ops_def upt2 float32_max_def)

lemma float32_finite: "torch_isfinite float32_ops a \<longleftrightarrow> a \<noteq> NotANumber"
  by (simp add: float32_ops_def num_ops_def)

lemma num_finite: "torch_isfinite num_ops a \<longleftrightarrow> a \<noteq> NotANumber"
  by (simp add: num_ops_def)

theorem non_finite_values_raise_witness:
  "(2::nat) = nat (fst (clamp_and_warn ''num_atoms'' 2 2 (int (length theta2)))) \<and>
   make_atomic_theta first_choice_multinomial theta2 (int 2) = Inr atoms2 \<and>
   snd (snpe_c_log_prob_proposal_posterior num_ops first_choice_multinomial
          (\<lambda>a rx. constant_log_prob NotANumber a) (constant_log_prob (Num 0)) 2 False theta2 [10, 20::nat] [])
     = Inl (AssertionError ''NaN/Inf present in posterior eval.'') \<and>
   snd (snpe_c_log_prob_proposal_posterior num_ops first_choice_multinomial
          first_entry (constant_log_prob NotANumber) 2 False theta2 [10, 20] [])
     = Inl (AssertionError ''NaN/Inf present in prior eval.'') \<and>
   snd (snpe_c_log_prob_proposal_posterior float32_ops first_choice_multinomial
          (\<lambda>a rx. constant_log_prob (Num float32_max) a) (constant_log_prob (Num (- float32_max)))
          2 False theta2 [10, 20::nat] [])
     = Inl (AssertionError ''NaN/Inf present in proposal posterior eval.'')"
proof -
  have a: "snd (snpe_c_log_prob_proposal_posterior num_ops first_choice_multinomial
          (\<lambda>a rx. constant_log_prob NotANumber a) (constant_log_prob (Num 0)) 2 False theta2 [10, 20::nat] [])
     = Inl (AssertionError ''NaN/Inf present in posterior eval.'')"
    using non_finite_values_raise [where ops = num_ops and multinomial = first_choice_multinomial
        and net_log_prob = "\<lambda>a rx. constant_log_prob NotANumber a"
        and prior_log_prob = "constant_log_prob (Num 0)" and x = "[10, 20::nat]" and masks = "[]"
        and use_combined_loss = False,
        OF K2 atoms2' const_atoms2 const_atoms2]
    by (simp add: num_finite)
  have b: "snd (snpe_c_log_prob_proposal_posterior num_ops first_choice_multinomial
          first_entry (constant_log_prob NotANumber) 2 False theta2 [10, 20] [])
     = Inl (AssertionError ''NaN/Inf present in prior eval.'')"
    using non_finite_values_raise [where ops = num_ops and multinomial = first_choice_multinomial
        and net_log_prob = first_entry
        and prior_log_prob = "constant_log_prob NotANumber" and x = "[10, 20::nat]" and masks = "[]"
        and use_combined_loss = False,
        OF K2 atoms2' first_atoms2 const_atoms2]
    by (simp add: num_finite)
  have c: "snd (snpe_c_log_prob_proposal_posterior float32_ops first_choice_multinomial
          (\<lambda>a rx. constant_log_prob (Num float32_max) a) (constant_log_prob (Num (- float32_max)))
          2 False theta2 [10, 20::nat] [])
     = Inl (AssertionError ''NaN/Inf present in proposal posterior eval.'')"
    using non_finite_values_raise [where ops = float32_ops and multinomial = first_choice_multinomial
        and net_log_prob = "\<lambda>a rx. constant_log_prob (Num float32_max) a"
        and prior_log_prob = "constant_log_prob (Num (- float32_max))" and x = "[10, 20::nat]" and masks = "[]"
        and use_combined_loss = False,
        OF K2 atoms2' const_atoms2 const_atoms2]
    by (simp add: float32_finite overflow_value len_theta2 upt2)
  from K2 atoms2' a b c show ?thesis by blast
qed

section \<open>Properties of the potential functions\<close>

text \<open>
  C7. When the batched \<open>theta\<close> and \<open>x\<close> concatenate, the classifier is evaluated on a batch
  of one row (the reshaped concatenation), and \<^verbatim>\<open>np_potential\<close> is the classifier's log-ratio plus the prior's
  log-probability of the batched \<open>theta\<close> (or the exception either raises).
  \<^verbatim>\<open>pyro_potential\<close>, given a dictionary whose first value is the same tensor, is the
  negation of that value, and raises what \<^verbatim>\<open>np_potential\<close> raises.
\<close>

theorem potentials:
  "(tensor_cat_dim1 (ensure_theta_batched (as_tensor theta)) (ensure_x_batched self_x) = Inr theta_x \<longrightarrow>
      length (reshape_one_row theta_x) = 1 \<and>
      np_potential ops as_tensor ensure_theta_batched ensure_x_batched prior_log_prob classifier self_x theta
        = (case classifier (reshape_one_row theta_x) of
             Inl e \<Rightarrow> Inl e
           | Inr log_ratio \<Rightarrow>
               (case prior_log_prob (ensure_theta_batched (as_tensor theta)) of
                  Inl e \<Rightarrow> Inl e
                | Inr log_prior \<Rightarrow> Inr (torch_add ops log_ratio log_prior)))) \<and>
   pyro_potential ops ensure_theta_batched ensure_x_batched prior_log_prob classifier self_x
       ((key, as_tensor theta) # others)
     = map_sum id (torch_neg ops)
         (np_potential ops as_tensor ensure_theta_batched ensure_x_batched prior_log_prob classifier self_x theta)"
  by (auto simp: np_potential_def pyro_potential_def Let_def reshape_one_row_def
        split: sum.splits if_splits)

theorem potentials_witness:
  "tensor_cat_dim1 (unsqueeze0 (Vec [Num 1, Num 2])) (unsqueeze0 (Vec [Num 3])) = Inr (Mat [[Num 1, Num 2, Num 3]]) \<and>
   reshape_one_row (Mat [[Num 1, Num 2, Num 3]]) = [[Num 1, Num 2, Num 3]] \<and>
   np_potential num_ops (\<lambda>t. t) unsqueeze0 unsqueeze0 (\<lambda>t. Inr (Num (-2))) (\<lambda>rows. Inr (Num 5))
       (Vec [Num 3]) (Vec [Num 1, Num 2]) = Inr (Num 3) \<and>
   pyro_potential num_ops unsqueeze0 unsqueeze0 (\<lambda>t. Inr (Num (-2))) (\<lambda>rows. Inr (Num 5))
       (Vec [Num 3]) [(''theta'', Vec [Num 1, Num 2])] = Inr (Num (-3))"
  using potentials [where as_tensor = "\<lambda>t. t" and ensure_theta_batched = unsqueeze0
      and ensure_x_batched = unsqueeze0 and theta = "Vec [Num 1, Num 2]" and self_x = "Vec [Num 3]"
      and theta_x = "Mat [[Num 1, Num 2, Num 3]]"
      and ops = num_ops and prior_log_prob = "\<lambda>t. Inr (Num (-2))" and classifier = "\<lambda>rows. Inr (Num 5)"
      and key = "''theta''" and others = "[]"]
  by (simp add: tensor_cat_dim1_def cat_dim1_def unsqueeze0_def reshape_one_row_def num_ops_def)

end
